theory Spec2Isabelle
  imports Complex_Main "HOL-Library.Signed_Division" "HOL-Library.Sublist" "HOL-Library.Multiset"
    "HOL-Library.Char_ord" "HOL-Library.List_Lexorder" "HOL-Library.Product_Lexorder"
begin

chapter \<open>The model\<close>

section \<open>The lightbox (src/content/order/js/lightbox.js)\<close>

text \<open>
  A gallery anchor \<^verbatim>\<open>a.gallery-item\<close> as the lightbox reads it: its \<^verbatim>\<open>href\<close> attribute
  (absent is \<open>None\<close>) and the \<^verbatim>\<open>alt\<close> attribute of its first \<^verbatim>\<open>img\<close> descendant
  (the outer option: is there an \<^verbatim>\<open>img\<close>; the inner one: has it an \<^verbatim>\<open>alt\<close>).
\<close>

record gallery_item =
  href :: "string option"
  img_alt :: "string option option"

text \<open>
  The closure's variables \<^verbatim>\<open>items\<close> and \<^verbatim>\<open>index\<close> together with the part of the
  page the script writes: \<^verbatim>\<open>lb.hidden\<close>, \<^verbatim>\<open>lbImg.src\<close>, \<^verbatim>\<open>lbImg.alt\<close>, the
  \<^verbatim>\<open>no-scroll\<close> class of the body and whether the close button was given the focus.
\<close>

record lightbox =
  items :: "gallery_item list"
  index :: int
  lb_hidden :: bool
  lbImg_src :: string
  lbImg_alt :: string
  no_scroll :: bool
  close_focused :: bool

text \<open>
  JavaScript's \<^verbatim>\<open>%\<close> on integers is the remainder of the division that truncates
  towards zero (the result has the sign of the dividend): \<open>smod\<close> on \<open>int\<close>.
\<close>

definition js_rem :: "int \<Rightarrow> int \<Rightarrow> int" where
  "js_rem a b = a smod b"

text \<open>\<^verbatim>\<open>a.getAttribute("href") || ""\<close>: an absent or empty attribute gives the empty string.\<close>

definition attr_or_empty :: "string option \<Rightarrow> string" where
  "attr_or_empty a = (case a of None \<Rightarrow> [] | Some s \<Rightarrow> s)"

text \<open>
  \<^verbatim>\<open>openAt(i)\<close>. The first argument is what \<^verbatim>\<open>qsa("a.gallery-item")\<close> finds in the page
  at the time of the call (\<^verbatim>\<open>refreshItems\<close> stores it in \<^verbatim>\<open>items\<close>); \<open>has_close\<close>
  says whether the page has a \<^verbatim>\<open>.lightbox-close\<close> button. The read \<^verbatim>\<open>items[index]\<close> is
  in range: the wrapped index lies between 0 and the length.
\<close>

definition openAt :: "gallery_item list \<Rightarrow> bool \<Rightarrow> int \<Rightarrow> lightbox \<Rightarrow> lightbox" where
  "openAt page has_close i st =
     (let st1 = st\<lparr>items := page\<rparr> in
      if length (items st1) = 0 then st1
      else
        let n = int (length (items st1));
            idx = js_rem (js_rem i n + n) n;
            a = items st1 ! nat idx;
            src = attr_or_empty (href a);
            alt = (case img_alt a of None \<Rightarrow> [] | Some al \<Rightarrow> attr_or_empty al)
        in st1\<lparr>index := idx, lbImg_src := src, lbImg_alt := alt, lb_hidden := False,
               no_scroll := True,
               close_focused := (if has_close then True else close_focused st1)\<rparr>)"

definition close_lb :: "lightbox \<Rightarrow> lightbox" where
  "close_lb st = st\<lparr>lb_hidden := True, lbImg_src := [], lbImg_alt := [],
                     no_scroll := False, index := -1\<rparr>"

definition next_lb :: "gallery_item list \<Rightarrow> bool \<Rightarrow> lightbox \<Rightarrow> lightbox" where
  "next_lb page has_close st =
     (if index st < 0 then st else openAt page has_close (index st + 1) st)"

definition prev_lb :: "gallery_item list \<Rightarrow> bool \<Rightarrow> lightbox \<Rightarrow> lightbox" where
  "prev_lb page has_close st =
     (if index st < 0 then st else openAt page has_close (index st - 1) st)"

text \<open>The state the script starts in: \<^verbatim>\<open>items = []\<close>, \<^verbatim>\<open>index = -1\<close>, overlay hidden.\<close>

definition lb_init :: lightbox where
  "lb_init = \<lparr>items = [], index = -1, lb_hidden = True, lbImg_src = [], lbImg_alt = [],
              no_scroll = False, close_focused = False\<rparr>"

text \<open>Three gallery anchors for the examples: with an \<^verbatim>\<open>alt\<close>, without one, without an image.\<close>

definition g1 :: gallery_item where
  "g1 = \<lparr>href = Some ''media/F_01_key.webp'', img_alt = Some (Some ''key'')\<rparr>"

definition g2 :: gallery_item where
  "g2 = \<lparr>href = Some ''media/F_01_map.png'', img_alt = Some None\<rparr>"

definition g3 :: gallery_item where
  "g3 = \<lparr>href = None, img_alt = None\<rparr>"


section \<open>Strings\<close>

text \<open>
  A JavaScript string is the sequence of its UTF-16 code units, here a list of integers
  (a code unit is one from 0 to 65535); \<open>ascii\<close> gives the string of an ASCII literal. The operations below are the
  \<^verbatim>\<open>String.prototype\<close> methods and regular expressions of navgen that the language
  fixes. The case mappings \<^verbatim>\<open>toLowerCase\<close> and \<^verbatim>\<open>toUpperCase\<close> follow the Unicode
  tables of the engine and belong to the platform (see below).
\<close>

type_synonym jstring = "int list"

definition ascii :: "string \<Rightarrow> jstring" where
  "ascii s = map of_char s"

text \<open>
  White space, as \<^verbatim>\<open>trim\<close> and \<^verbatim>\<open>\s\<close> take it: the WhiteSpace and LineTerminator code
  points of the language (tab, line feed, vertical tab, form feed, carriage return,
  space, no-break space, U+1680, U+2000 to U+200A, U+2028, U+2029, U+202F, U+205F,
  U+3000 and U+FEFF).
\<close>

definition isSpace :: "int \<Rightarrow> bool" where
  "isSpace c = (c = 0x09 \<or> c = 0x0A \<or> c = 0x0B \<or> c = 0x0C \<or> c = 0x0D \<or> c = 0x20
                \<or> c = 0xA0 \<or> c = 0x1680 \<or> (0x2000 \<le> c \<and> c \<le> 0x200A)
                \<or> c = 0x2028 \<or> c = 0x2029 \<or> c = 0x202F \<or> c = 0x205F \<or> c = 0x3000
                \<or> c = 0xFEFF)"

definition trim :: "jstring \<Rightarrow> jstring" where
  "trim s = rev (dropWhile isSpace (rev (dropWhile isSpace s)))"

text \<open>
  The case folding of a regular expression with the flag \<^verbatim>\<open>i\<close> (and without \<^verbatim>\<open>u\<close>)
  against an ASCII letter of the pattern: only the two ASCII forms of the letter match,
  because a code unit above 127 is never folded to one below.
\<close>

definition lowerAscii :: "int \<Rightarrow> int" where
  "lowerAscii c = (if 0x41 \<le> c \<and> c \<le> 0x5A then c + 0x20 else c)"

text \<open>Decimal numerals, as template literals and \<^verbatim>\<open>String\<close> print an integer.\<close>

fun dec_nat :: "nat \<Rightarrow> jstring" where
  "dec_nat n = (if n < 10 then [0x30 + int n]
                else dec_nat (n div 10) @ [0x30 + int (n mod 10)])"

definition dec_int :: "int \<Rightarrow> jstring" where
  "dec_int i = (if i < 0 then 0x2D # dec_nat (nat (- i)) else dec_nat (nat i))"

text \<open>
  \<^verbatim>\<open>s.split(sep)\<close> for a non-empty separator: the pieces between the occurrences of
  \<open>sep\<close>, found from the left without overlap; \<open>acc\<close> is the piece being read,
  reversed.
\<close>

fun splitOn :: "jstring \<Rightarrow> jstring \<Rightarrow> jstring \<Rightarrow> jstring list" where
  "splitOn sep acc [] = [rev acc]"
| "splitOn sep acc (c # cs) =
     (if sep \<noteq> [] \<and> prefix sep (c # cs)
      then rev acc # splitOn sep [] (drop (length sep) (c # cs))
      else splitOn sep (c # acc) cs)"

definition splitStr :: "jstring \<Rightarrow> jstring \<Rightarrow> jstring list" where
  "splitStr sep s = splitOn sep [] s"

text \<open>\<^verbatim>\<open>parts.join(sep)\<close> on strings.\<close>

fun joinStr :: "jstring \<Rightarrow> jstring list \<Rightarrow> jstring" where
  "joinStr sep [] = []"
| "joinStr sep [x] = x"
| "joinStr sep (x # y # ys) = x @ sep @ joinStr sep (y # ys)"

text \<open>\<^verbatim>\<open>s.includes(t)\<close>: \<open>t\<close> occurs in \<open>s\<close> as a contiguous piece.\<close>

fun includesStr :: "jstring \<Rightarrow> jstring \<Rightarrow> bool" where
  "includesStr [] t = (t = [])"
| "includesStr (c # cs) t = (prefix t (c # cs) \<or> includesStr cs t)"

text \<open>\<^verbatim>\<open>s.indexOf(t)\<close>: the first position at which \<open>t\<close> occurs, \<open>None\<close> for -1.\<close>

fun indexOf :: "jstring \<Rightarrow> jstring \<Rightarrow> nat option" where
  "indexOf [] t = (if t = [] then Some 0 else None)"
| "indexOf (c # cs) t =
     (if prefix t (c # cs) then Some 0 else map_option Suc (indexOf cs t))"

text \<open>\<^verbatim>\<open>s.replace(/\\/g, "/")\<close>: every backslash (0x5C) becomes a slash (0x2F).\<close>

definition backslashesToSlashes :: "jstring \<Rightarrow> jstring" where
  "backslashesToSlashes s = map (\<lambda>c. if c = 0x5C then 0x2F else c) s"

text \<open>\<^verbatim>\<open>s.replace(/^\.\//, "")\<close>: one leading \<^verbatim>\<open>./\<close> is removed.\<close>

definition stripDotSlash :: "jstring \<Rightarrow> jstring" where
  "stripDotSlash s = (if prefix (ascii ''./'') s then drop 2 s else s)"

text \<open>\<^verbatim>\<open>s.replace(/\/{2,}/g, "/")\<close>: every run of slashes becomes one slash.\<close>

fun collapseSlashes :: "jstring \<Rightarrow> jstring" where
  "collapseSlashes (a # b # cs) =
     (if a = 0x2F \<and> b = 0x2F then collapseSlashes (b # cs)
      else a # collapseSlashes (b # cs))"
| "collapseSlashes cs = cs"

text \<open>\<^verbatim>\<open>s.replace(/\.html$/i, "")\<close>: a final \<^verbatim>\<open>.html\<close>, in any case of letters, is removed.\<close>

definition stripHtmlSuffix :: "jstring \<Rightarrow> jstring" where
  "stripHtmlSuffix s =
     (if 5 \<le> length s \<and> map lowerAscii (drop (length s - 5) s) = ascii ''.html''
      then take (length s - 5) s else s)"

text \<open>
  \<^verbatim>\<open>s.replace(/[_-]+/g, " ")\<close>: every run of underscores (0x5F) and hyphens (0x2D)
  becomes one space.
\<close>

definition isSep :: "int \<Rightarrow> bool" where
  "isSep c = (c = 0x5F \<or> c = 0x2D)"

fun sepRuns :: "bool \<Rightarrow> jstring \<Rightarrow> jstring" where
  "sepRuns inRun [] = []"
| "sepRuns inRun (c # cs) =
     (if isSep c then (if inRun then sepRuns True cs else 0x20 # sepRuns True cs)
      else c # sepRuns False cs)"

definition separatorsToSpace :: "jstring \<Rightarrow> jstring" where
  "separatorsToSpace s = sepRuns False s"

text \<open>
  \<^verbatim>\<open>s.replace(/^[CL]\s+/i, "")\<close>: a leading C or L (either case) followed by white
  space is removed together with all the white space after it.
\<close>

definition stripTypeLetter :: "jstring \<Rightarrow> jstring" where
  "stripTypeLetter s =
     (case s of
        c # d # cs \<Rightarrow>
          if (lowerAscii c = 0x63 \<or> lowerAscii c = 0x6C) \<and> isSpace d
          then dropWhile isSpace cs else s
      | _ \<Rightarrow> s)"

text \<open>\<^verbatim>\<open>s.replace(/[^/]+$/, "")\<close>: the part after the last slash is removed.\<close>

definition stripLastSegment :: "jstring \<Rightarrow> jstring" where
  "stripLastSegment s = rev (dropWhile (\<lambda>c. c \<noteq> 0x2F) (rev s))"

section \<open>JavaScript values, the heap and exceptions\<close>

text \<open>
  A number is a finite number or one of the two infinities (\<^verbatim>\<open>JSON.parse\<close> gives
  \<^verbatim>\<open>Infinity\<close> for a numeral beyond the range); \<^verbatim>\<open>NaN\<close>, which no parsed value is, is
  \<open>None\<close> where an operation can give it. The finite numbers are taken from the
  rationals, which hold every double; \<^verbatim>\<open>-0\<close> is 0, from which navgen cannot tell it.
\<close>

datatype jsnum = NegInf | Fin rat | PosInf

text \<open>
  \<^verbatim>\<open>a - b\<close>. The difference of two finite numbers is exact here, where JavaScript
  rounds it to the nearest double: the sort, its only reader, takes the sign, and
  rounding keeps the sign of a difference.
\<close>

definition numSub :: "jsnum \<Rightarrow> jsnum \<Rightarrow> jsnum option" where
  "numSub a b =
     (case (a, b) of
        (Fin x, Fin y) \<Rightarrow> Some (Fin (x - y))
      | (Fin x, PosInf) \<Rightarrow> Some NegInf
      | (Fin x, NegInf) \<Rightarrow> Some PosInf
      | (PosInf, PosInf) \<Rightarrow> None
      | (PosInf, _) \<Rightarrow> Some PosInf
      | (NegInf, NegInf) \<Rightarrow> None
      | (NegInf, _) \<Rightarrow> Some NegInf)"

text \<open>\<^verbatim>\<open>x > 0\<close> on a number that may be \<^verbatim>\<open>NaN\<close>.\<close>

definition gtZero :: "jsnum option \<Rightarrow> bool" where
  "gtZero x = (case x of Some (Fin q) \<Rightarrow> 0 < q | Some PosInf \<Rightarrow> True | _ \<Rightarrow> False)"

text \<open>An integer as a number (the result of \<^verbatim>\<open>localeCompare\<close>).\<close>

definition numOfInt :: "int \<Rightarrow> jsnum option" where
  "numOfInt i = Some (Fin (of_int i))"

text \<open>
  The value that \<^verbatim>\<open>res.json()\<close> returns is an object graph. Arrays and objects live in
  a heap and are named by their address, so that copying an array and sorting an array
  in place are different things; the other values are immediate. An object is the list
  of its own properties. \<open>JArrayPrototype\<close> is \<^verbatim>\<open>Array.prototype\<close>, which
  \<^verbatim>\<open>arcs["__proto__"]\<close> reads when \<^verbatim>\<open>arcs\<close> is an array: it is itself an empty array.
\<close>

datatype jsval =
    JUndefined
  | JNull
  | JBool bool
  | JNum jsnum
  | JStr jstring
  | JRef nat
  | JArrayPrototype

datatype cell = Arr "jsval list" | Obj "(jstring \<times> jsval) list"

type_synonym heap = "cell list"

text \<open>A thrown \<^verbatim>\<open>Error\<close> object: its \<^verbatim>\<open>name\<close> and its \<^verbatim>\<open>message\<close>.\<close>

datatype js_error = JsError jstring jstring

definition errName :: "js_error \<Rightarrow> jstring" where
  "errName e = (case e of JsError n m \<Rightarrow> n)"

definition errMessage :: "js_error \<Rightarrow> jstring" where
  "errMessage e = (case e of JsError n m \<Rightarrow> m)"

text \<open>\<^verbatim>\<open>String(err)\<close>, that is \<^verbatim>\<open>Error.prototype.toString\<close>.\<close>

definition errToString :: "js_error \<Rightarrow> jstring" where
  "errToString e =
     (if errName e = [] then errMessage e
      else if errMessage e = [] then errName e
      else errName e @ ascii '': '' @ errMessage e)"

text \<open>A computation that may throw: \<open>Inl\<close> is the thrown error.\<close>

definition bindE :: "'e + 'a \<Rightarrow> ('a \<Rightarrow> 'e + 'b) \<Rightarrow> 'e + 'b" where
  "bindE m f = (case m of Inl e \<Rightarrow> Inl e | Inr x \<Rightarrow> f x)"

text \<open>A \<^verbatim>\<open>for ... of\<close> loop that builds one result per element and stops at the first throw.\<close>

fun mapE :: "('a \<Rightarrow> 'e + 'b) \<Rightarrow> 'a list \<Rightarrow> 'e + 'b list" where
  "mapE f [] = Inr []"
| "mapE f (x # xs) =
     (case f x of
        Inl e \<Rightarrow> Inl e
      | Inr y \<Rightarrow> (case mapE f xs of Inl e \<Rightarrow> Inl e | Inr ys \<Rightarrow> Inr (y # ys)))"

text \<open>The rule by which a recursion through \<open>mapE\<close> is seen to end.\<close>

lemma mapE_cong [fundef_cong]:
  "xs = ys \<Longrightarrow> (\<And>x. x \<in> set ys \<Longrightarrow> f x = g x) \<Longrightarrow> mapE f xs = mapE g ys"
proof (induction ys arbitrary: xs)
  case Nil
  then show ?case by simp
next
  case (Cons y ys)
  have a: "mapE f ys = mapE g ys" using Cons by simp
  have b: "f y = g y" using Cons.prems by simp
  show ?case by (simp only: Cons.prems(1) mapE.simps a b)
qed

definition cellAt :: "heap \<Rightarrow> nat \<Rightarrow> cell option" where
  "cellAt h a = (if a < length h then Some (h ! a) else None)"

definition truthy :: "jsval \<Rightarrow> bool" where
  "truthy v =
     (case v of
        JUndefined \<Rightarrow> False
      | JNull \<Rightarrow> False
      | JBool b \<Rightarrow> b
      | JNum n \<Rightarrow> n \<noteq> Fin 0
      | JStr s \<Rightarrow> s \<noteq> []
      | JRef a \<Rightarrow> True
      | JArrayPrototype \<Rightarrow> True)"

definition typeof :: "jsval \<Rightarrow> string" where
  "typeof v =
     (case v of
        JUndefined \<Rightarrow> ''undefined''
      | JNull \<Rightarrow> ''object''
      | JBool b \<Rightarrow> ''boolean''
      | JNum n \<Rightarrow> ''number''
      | JStr s \<Rightarrow> ''string''
      | JRef a \<Rightarrow> ''object''
      | JArrayPrototype \<Rightarrow> ''object'')"

text \<open>\<^verbatim>\<open>a || b\<close> on values.\<close>

definition orElse :: "jsval \<Rightarrow> jsval \<Rightarrow> jsval" where
  "orElse a b = (if truthy a then a else b)"

text \<open>\<^verbatim>\<open>Array.isArray(v)\<close> and the elements of an array.\<close>

definition isArray :: "heap \<Rightarrow> jsval \<Rightarrow> bool" where
  "isArray h v =
     (case v of
        JRef a \<Rightarrow> (case cellAt h a of Some (Arr xs) \<Rightarrow> True | _ \<Rightarrow> False)
      | JArrayPrototype \<Rightarrow> True
      | _ \<Rightarrow> False)"

definition elements :: "heap \<Rightarrow> jsval \<Rightarrow> jsval list" where
  "elements h v =
     (case v of
        JRef a \<Rightarrow> (case cellAt h a of Some (Arr xs) \<Rightarrow> xs | _ \<Rightarrow> [])
      | _ \<Rightarrow> [])"

text \<open>
  A property key that is an array index: a decimal numeral without a leading zero.
\<close>

definition digitVal :: "int \<Rightarrow> nat option" where
  "digitVal c = (if 0x30 \<le> c \<and> c \<le> 0x39 then Some (nat (c - 0x30)) else None)"

fun digitsVal :: "nat \<Rightarrow> jstring \<Rightarrow> nat option" where
  "digitsVal acc [] = Some acc"
| "digitsVal acc (c # cs) =
     (case digitVal c of None \<Rightarrow> None | Some d \<Rightarrow> digitsVal (10 * acc + d) cs)"

definition parseIndex :: "jstring \<Rightarrow> nat option" where
  "parseIndex k =
     (case k of
        [] \<Rightarrow> None
      | c # cs \<Rightarrow> if c = 0x30 \<and> cs \<noteq> [] then None else digitsVal 0 k)"

text \<open>
  A property read \<^verbatim>\<open>v[k]\<close>. Reading a property of \<^verbatim>\<open>null\<close> or \<^verbatim>\<open>undefined\<close> throws a
  \<^verbatim>\<open>TypeError\<close> (the message is the engine's; V8's is used). An object has its own
  properties; an array its elements, its \<^verbatim>\<open>length\<close> and, under \<^verbatim>\<open>__proto__\<close>,
  \<^verbatim>\<open>Array.prototype\<close>; a string its \<^verbatim>\<open>length\<close> and its characters. Every other
  inherited member (the methods of the prototypes and \<^verbatim>\<open>Object.prototype\<close> itself) is
  read as \<^verbatim>\<open>undefined\<close>: none of them is an array, a number or a string, navgen reads a
  computed key only to test it with \<^verbatim>\<open>Array.isArray\<close>, and the fixed keys it reads name
  no inherited member.
\<close>

definition nullRead :: "jsval \<Rightarrow> jstring \<Rightarrow> js_error" where
  "nullRead v k =
     JsError (ascii ''TypeError'')
       (ascii ''Cannot read properties of ''
        @ (if v = JNull then ascii ''null'' else ascii ''undefined'')
        @ ascii '' (reading '' @ [0x27] @ k @ [0x27] @ ascii '')'')"

definition getProp :: "heap \<Rightarrow> jsval \<Rightarrow> jstring \<Rightarrow> js_error + jsval" where
  "getProp h v k =
     (case v of
        JUndefined \<Rightarrow> Inl (nullRead v k)
      | JNull \<Rightarrow> Inl (nullRead v k)
      | JBool b \<Rightarrow> Inr JUndefined
      | JNum n \<Rightarrow> Inr JUndefined
      | JStr s \<Rightarrow>
          Inr (if k = ascii ''length'' then JNum (Fin (of_nat (length s)))
               else (case parseIndex k of
                       Some i \<Rightarrow> if i < length s then JStr [s ! i] else JUndefined
                     | None \<Rightarrow> JUndefined))
      | JArrayPrototype \<Rightarrow> Inr (if k = ascii ''length'' then JNum (Fin 0) else JUndefined)
      | JRef a \<Rightarrow>
          (case cellAt h a of
             None \<Rightarrow> Inr JUndefined
           | Some (Obj ps) \<Rightarrow> Inr (case map_of ps k of Some x \<Rightarrow> x | None \<Rightarrow> JUndefined)
           | Some (Arr xs) \<Rightarrow>
               Inr (if k = ascii ''length'' then JNum (Fin (of_nat (length xs)))
                    else if k = ascii ''__proto__'' then JArrayPrototype
                    else (case parseIndex k of
                            Some i \<Rightarrow> if i < length xs then xs ! i else JUndefined
                          | None \<Rightarrow> JUndefined))))"

text \<open>
  A read \<^verbatim>\<open>v.k\<close> at a place where the source has already read a property of the same
  value \<open>v\<close>, or has tested \<open>v\<close> to be truthy: there it cannot throw.
\<close>

definition field :: "heap \<Rightarrow> jsval \<Rightarrow> jstring \<Rightarrow> jsval" where
  "field h v k = (case getProp h v k of Inl e \<Rightarrow> JUndefined | Inr x \<Rightarrow> x)"

section \<open>The page, the platform and the options\<close>

text \<open>
  A DOM node: a text node, or an element with its tag, its \<^verbatim>\<open>className\<close>, its other
  attributes and its children. Tags, class names and attribute names are literals of
  the program.
\<close>

datatype dom = TextNode jstring | Element string string "(string \<times> jstring) list" "dom list"

text \<open>
  What \<^verbatim>\<open>fetch\<close> and \<^verbatim>\<open>res.json()\<close> can do: the request fails (\<^verbatim>\<open>fetch\<close> rejects), or a
  response arrives with its status and status text, whose body is not JSON
  (\<^verbatim>\<open>res.json()\<close> rejects) or parses to a value in a heap.
\<close>

datatype body = BadJson js_error | Json heap jsval

datatype response = NetworkFailure js_error | Response nat jstring body

text \<open>\<^verbatim>\<open>res.ok\<close>: the status is in the range 200 to 299.\<close>

definition res_ok :: "nat \<Rightarrow> bool" where
  "res_ok status = (200 \<le> status \<and> status \<le> 299)"

text \<open>
  The platform as navgen uses it: \<^verbatim>\<open>String.prototype.localeCompare\<close>,
  \<^verbatim>\<open>toLowerCase\<close> and \<^verbatim>\<open>toUpperCase\<close>, the conversion of a string to a number
  (\<open>None\<close> is \<^verbatim>\<open>NaN\<close>), the printing of a finite number that is not an integer below
  2 to the power 53 in magnitude, \<^verbatim>\<open>new URL(rel, base).toString()\<close> (which throws on an invalid
  URL), \<^verbatim>\<open>fetch\<close> by URL, and the page's \<^verbatim>\<open>window.location.pathname\<close>,
  \<^verbatim>\<open>window.location.origin\<close> and \<^verbatim>\<open>document.baseURI\<close>.
\<close>

record env =
  localeCompare :: "jstring \<Rightarrow> jstring \<Rightarrow> int"
  toLowerCase :: "jstring \<Rightarrow> jstring"
  toUpperCase :: "jstring \<Rightarrow> jstring"
  stringToNumber :: "jstring \<Rightarrow> jsnum option"
  numberToString :: "rat \<Rightarrow> jstring"
  newURL :: "jstring \<Rightarrow> jstring \<Rightarrow> js_error + jstring"
  fetch :: "jstring \<Rightarrow> response"
  location_pathname :: jstring
  location_origin :: jstring
  baseURI :: jstring

text \<open>The options after \<^verbatim>\<open>Object.assign({}, DEFAULTS, opts || {})\<close>.\<close>

record options =
  manifestPath :: jstring
  showCounts :: bool
  showMissingBadge :: bool
  emptyMessage :: jstring
  loadingMessage :: jstring

definition DEFAULTS :: options where
  "DEFAULTS = \<lparr>manifestPath = ascii ''manifest.json'', showCounts = True,
               showMissingBadge = True, emptyMessage = ascii ''No chapters yet.'',
               loadingMessage = ascii ''Loading chapters'' @ [0x2026]\<rparr>"

section \<open>Conversions\<close>

text \<open>
  The printing of a number: an integer below 2 to the power 53 in magnitude prints as its decimal
  numeral; every other finite number as the engine prints it.
\<close>

definition numToStr :: "env \<Rightarrow> jsnum \<Rightarrow> jstring" where
  "numToStr e n =
     (case n of
        NegInf \<Rightarrow> ascii ''-Infinity''
      | PosInf \<Rightarrow> ascii ''Infinity''
      | Fin q \<Rightarrow>
          if of_int \<lfloor>q\<rfloor> = q \<and> \<bar>q\<bar> < 2 ^ 53 then dec_int \<lfloor>q\<rfloor> else numberToString e q)"

definition primToStr :: "env \<Rightarrow> jsval \<Rightarrow> jstring" where
  "primToStr e v =
     (case v of
        JUndefined \<Rightarrow> ascii ''undefined''
      | JNull \<Rightarrow> ascii ''null''
      | JBool b \<Rightarrow> (if b then ascii ''true'' else ascii ''false'')
      | JNum n \<Rightarrow> numToStr e n
      | JStr s \<Rightarrow> s
      | JRef a \<Rightarrow> ascii ''[object Object]''
      | JArrayPrototype \<Rightarrow> [])"

text \<open>
  \<^verbatim>\<open>String(v)\<close>. A parsed object prints as \<^verbatim>\<open>[object Object]\<close> through
  \<^verbatim>\<open>Object.prototype.toString\<close>, unless it has a property \<^verbatim>\<open>toString\<close> of its own:
  that value is no function, \<^verbatim>\<open>valueOf\<close> gives back the object, and the conversion
  throws a \<^verbatim>\<open>TypeError\<close> (V8's message is used). An array prints its elements
  separated by commas, \<^verbatim>\<open>null\<close> and \<^verbatim>\<open>undefined\<close> elements as the empty string, and
  throws what an element throws. A heap made by \<^verbatim>\<open>JSON.parse\<close> holds the elements of
  an array at smaller addresses than the array; an element that is not (which no parsed
  manifest has) prints as the empty string, so that printing ends.
\<close>

definition cannotConvert :: js_error where
  "cannotConvert =
     JsError (ascii ''TypeError'') (ascii ''Cannot convert object to primitive value'')"

function toStr :: "env \<Rightarrow> heap \<Rightarrow> jsval \<Rightarrow> js_error + jstring" where
  "toStr e h v =
     (case v of
        JRef a \<Rightarrow>
          (case cellAt h a of
             Some (Arr xs) \<Rightarrow>
               bindE (mapE (\<lambda>x. case x of
                                   JUndefined \<Rightarrow> Inr []
                                 | JNull \<Rightarrow> Inr []
                                 | JRef b \<Rightarrow> (if b < a then toStr e h (JRef b) else Inr [])
                                 | _ \<Rightarrow> Inr (primToStr e x)) xs)
                 (\<lambda>parts. Inr (joinStr (ascii '','') parts))
           | Some (Obj ps) \<Rightarrow>
               if map_of ps (ascii ''toString'') \<noteq> None then Inl cannotConvert
               else Inr (ascii ''[object Object]'')
           | None \<Rightarrow> Inr (ascii ''[object Object]''))
      | _ \<Rightarrow> Inr (primToStr e v))"
  by pat_completeness auto
termination
  by (relation "measure (\<lambda>(e, h, v). case v of JRef a \<Rightarrow> a | _ \<Rightarrow> 0)") auto

text \<open>
  \<^verbatim>\<open>Number(v)\<close>; \<open>None\<close> is \<^verbatim>\<open>NaN\<close>. An array or object is converted to a primitive
  first: \<^verbatim>\<open>valueOf\<close> gives back the object, so this is its \<^verbatim>\<open>String\<close>, with the same
  \<^verbatim>\<open>TypeError\<close>.
\<close>

definition toNumber :: "env \<Rightarrow> heap \<Rightarrow> jsval \<Rightarrow> js_error + jsnum option" where
  "toNumber e h v =
     (case v of
        JUndefined \<Rightarrow> Inr None
      | JNull \<Rightarrow> Inr (Some (Fin 0))
      | JBool b \<Rightarrow> Inr (Some (Fin (if b then 1 else 0)))
      | JNum n \<Rightarrow> Inr (Some n)
      | JStr s \<Rightarrow> Inr (stringToNumber e s)
      | JRef a \<Rightarrow> bindE (toStr e h v) (\<lambda>s. Inr (stringToNumber e s))
      | JArrayPrototype \<Rightarrow> bindE (toStr e h v) (\<lambda>s. Inr (stringToNumber e s)))"

declare toStr.simps [simp del]


section \<open>The helpers of navgen (the same text in src/js/navgen.js and src/unnamed/part 000)\<close>

text \<open>
  \<^verbatim>\<open>normalizePath(p)\<close>: the empty string for a falsy \<open>p\<close>, else the three replacements
  on \<^verbatim>\<open>String(p)\<close>.
\<close>

definition normalizePath :: "env \<Rightarrow> heap \<Rightarrow> jsval \<Rightarrow> js_error + jstring" where
  "normalizePath e h p =
     (if \<not> truthy p then Inr []
      else bindE (toStr e h p)
             (\<lambda>s. Inr (collapseSlashes (stripDotSlash (backslashesToSlashes s)))))"

definition getCurrentPathnameNormalized :: "env \<Rightarrow> js_error + jstring" where
  "getCurrentPathnameNormalized e = normalizePath e [] (JStr (location_pathname e))"

definition safeText :: "env \<Rightarrow> heap \<Rightarrow> jsval \<Rightarrow> js_error + jstring" where
  "safeText e h s = (if s = JNull \<or> s = JUndefined then Inr [] else toStr e h s)"

text \<open>
  \<^verbatim>\<open>el(tag, className, text)\<close>; \<open>None\<close> is a call without the third argument. Setting
  \<^verbatim>\<open>textContent\<close> to the empty string leaves the element without children.
\<close>

definition el :: "string \<Rightarrow> string \<Rightarrow> jstring option \<Rightarrow> dom" where
  "el tag className txt =
     Element tag className []
       (case txt of None \<Rightarrow> [] | Some t \<Rightarrow> if t = [] then [] else [TextNode t])"

definition makeBadge :: "jstring \<Rightarrow> string \<Rightarrow> dom" where
  "makeBadge txt className = el ''span'' (if className = [] then ''badge'' else className) (Some txt)"

definition appendChild :: "dom \<Rightarrow> dom \<Rightarrow> dom" where
  "appendChild parent child =
     (case parent of
        Element tag cls attrs kids \<Rightarrow> Element tag cls attrs (kids @ [child])
      | TextNode t \<Rightarrow> TextNode t)"

text \<open>
  \<^verbatim>\<open>pickArcEntries(manifest, arc)\<close>, the version gate. \<open>JNull\<close> is the \<^verbatim>\<open>null\<close> it
  returns.
\<close>

definition pickArcEntries :: "heap \<Rightarrow> jsval \<Rightarrow> jstring \<Rightarrow> js_error + jsval" where
  "pickArcEntries h manifest arc =
     (if \<not> truthy manifest \<or> typeof manifest \<noteq> ''object'' then Inr JNull
      else bindE (getProp h manifest (ascii ''schema'')) (\<lambda>schema.
        if schema \<noteq> JNum (Fin 2) then Inr JNull
        else bindE (getProp h manifest (ascii ''arcs'')) (\<lambda>arcs.
          if \<not> truthy arcs \<or> typeof arcs \<noteq> ''object'' then Inr JNull
          else bindE (getProp h arcs arc) (\<lambda>entries.
            if \<not> isArray h entries then Inr JNull else Inr entries))))"

text \<open>
  \<^verbatim>\<open>entries.slice()\<close> allocates a new array with the same elements;
  \<^verbatim>\<open>xs.sort(cmp)\<close> sorts the array at an address in place and returns it. The sort
  reads of a comparator's result whether it is positive (\<^verbatim>\<open>NaN\<close> counts as 0). It is
  the stable insertion sort: for a comparator that is consistent on the elements the
  language fixes the result (the stable sorted order), and when every call of the
  comparator throws the same error, the sort throws it as soon as the array has two
  elements. For other comparators the order of an engine's comparisons decides, which
  the language leaves open. When the comparator throws, the array is left as it was.
\<close>

definition arraySlice :: "heap \<Rightarrow> jsval \<Rightarrow> heap \<times> jsval" where
  "arraySlice h v = (h @ [Arr (elements h v)], JRef (length h))"

fun insertE ::
  "('a \<Rightarrow> 'a \<Rightarrow> js_error + jsnum option) \<Rightarrow> 'a \<Rightarrow> 'a list \<Rightarrow> js_error + 'a list" where
  "insertE cmp x [] = Inr [x]"
| "insertE cmp x (y # ys) =
     (case cmp x y of
        Inl e \<Rightarrow> Inl e
      | Inr c \<Rightarrow>
          if \<not> gtZero c then Inr (x # y # ys)
          else (case insertE cmp x ys of Inl e \<Rightarrow> Inl e | Inr r \<Rightarrow> Inr (y # r)))"

fun sortE :: "('a \<Rightarrow> 'a \<Rightarrow> js_error + jsnum option) \<Rightarrow> 'a list \<Rightarrow> js_error + 'a list" where
  "sortE cmp [] = Inr []"
| "sortE cmp (x # xs) =
     (case sortE cmp xs of Inl e \<Rightarrow> Inl e | Inr s \<Rightarrow> insertE cmp x s)"

definition arraySort ::
  "(jsval \<Rightarrow> jsval \<Rightarrow> js_error + jsnum option) \<Rightarrow> heap \<Rightarrow> jsval
     \<Rightarrow> heap \<times> (js_error + jsval)" where
  "arraySort cmp h v =
     (case v of
        JRef a \<Rightarrow>
          (case cellAt h a of
             Some (Arr xs) \<Rightarrow>
               (case sortE cmp xs of
                  Inl e \<Rightarrow> (h, Inl e)
                | Inr ys \<Rightarrow> (h[a := Arr ys], Inr v))
           | _ \<Rightarrow> (h, Inr v))
      | _ \<Rightarrow> (h, Inr v))"

section \<open>src/js/navgen.js\<close>

text \<open>
  The comparator of the defensive sort (lines 170 to 181). Both \<^verbatim>\<open>a.index\<close> and
  \<^verbatim>\<open>b.index\<close> are read first, so a \<^verbatim>\<open>null\<close> entry throws. \<open>numberOrNull\<close> is
  \<^verbatim>\<open>typeof x === "number" ? x : null\<close>, with \<open>None\<close> for \<^verbatim>\<open>null\<close>. \<open>sortTitle\<close> is
  \<^verbatim>\<open>String(a.title || a.title_text || a.id || "").toLowerCase()\<close>.
\<close>

definition numberOrNull :: "jsval \<Rightarrow> jsnum option" where
  "numberOrNull v = (if typeof v = ''number'' then (case v of JNum x \<Rightarrow> Some x | _ \<Rightarrow> None) else None)"

definition sortTitle :: "env \<Rightarrow> heap \<Rightarrow> jsval \<Rightarrow> js_error + jstring" where
  "sortTitle e h a =
     bindE (toStr e h (orElse (field h a (ascii ''title''))
                         (orElse (field h a (ascii ''title_text''))
                           (orElse (field h a (ascii ''id'')) (JStr [])))))
       (\<lambda>s. Inr (toLowerCase e s))"

definition defensiveCompare :: "env \<Rightarrow> heap \<Rightarrow> jsval \<Rightarrow> jsval \<Rightarrow> js_error + jsnum option" where
  "defensiveCompare e h a b =
     bindE (getProp h a (ascii ''index'')) (\<lambda>aidx.
     bindE (getProp h b (ascii ''index'')) (\<lambda>bidx.
       case (numberOrNull aidx, numberOrNull bidx) of
         (Some ai, Some bi) \<Rightarrow> Inr (numSub ai bi)
       | _ \<Rightarrow>
           bindE (sortTitle e h a) (\<lambda>ta.
           bindE (sortTitle e h b) (\<lambda>tb.
             Inr (numOfInt (localeCompare e ta tb))))))"

text \<open>\<^verbatim>\<open>fetchManifest(manifestPath)\<close>: the URL is resolved against \<^verbatim>\<open>document.baseURI\<close>.\<close>

definition httpError :: "nat \<Rightarrow> jstring \<Rightarrow> js_error" where
  "httpError status statusText =
     JsError (ascii ''Error'')
       (ascii ''Failed to load manifest ('' @ dec_nat status @ ascii '' '' @ statusText
        @ ascii '')'')"

definition fetchJson :: "env \<Rightarrow> jstring \<Rightarrow> js_error + heap \<times> jsval" where
  "fetchJson e url =
     (case fetch e url of
        NetworkFailure err \<Rightarrow> Inl err
      | Response status statusText b \<Rightarrow>
          if \<not> res_ok status then Inl (httpError status statusText)
          else (case b of BadJson err \<Rightarrow> Inl err | Json h m \<Rightarrow> Inr (h, m)))"

definition fetchManifest :: "env \<Rightarrow> jstring \<Rightarrow> js_error + heap \<times> jsval" where
  "fetchManifest e path = bindE (newURL e path (baseURI e)) (\<lambda>url. fetchJson e url)"

text \<open>
  The badges of a row (the same text in both files): the image count when
  \<^verbatim>\<open>entry.counts\<close> is there and \<^verbatim>\<open>counts.images_used\<close> is a number, the missing count
  when \<^verbatim>\<open>Number(counts.images_missing || 0)\<close> is positive. \<^verbatim>\<open>counts\<close> is
  \<^verbatim>\<open>entry.counts || {}\<close>, so the reads of a falsy \<^verbatim>\<open>entry.counts\<close> give \<^verbatim>\<open>undefined\<close>.
\<close>

definition countsField :: "heap \<Rightarrow> jsval \<Rightarrow> jstring \<Rightarrow> jsval" where
  "countsField h entry k =
     (let c = field h entry (ascii ''counts'') in if truthy c then field h c k else JUndefined)"

definition rowBadges :: "env \<Rightarrow> options \<Rightarrow> heap \<Rightarrow> jsval \<Rightarrow> js_error + dom list" where
  "rowBadges e opts h entry =
     bindE (toNumber e h (orElse (countsField h entry (ascii ''images_missing'')) (JNum (Fin 0))))
       (\<lambda>missingCount.
          Inr ((case countsField h entry (ascii ''images_used'') of
                  JNum n \<Rightarrow>
                    if showCounts opts \<and> truthy (field h entry (ascii ''counts''))
                    then [makeBadge (numToStr e n @ ascii '' img'') ''badge badge-img'']
                    else []
                | _ \<Rightarrow> [])
               @ (case missingCount of
                    Some m \<Rightarrow>
                      if showMissingBadge opts \<and> gtZero missingCount
                      then [makeBadge (numToStr e m @ ascii '' missing'') ''badge badge-missing'']
                      else []
                  | None \<Rightarrow> [])))"

text \<open>
  The subtitle line: \<^verbatim>\<open>metaBits\<close> holds \<^verbatim>\<open>entry.id\<close> when it is truthy, and the line is
  there when \<^verbatim>\<open>metaBits\<close> is not empty; \<^verbatim>\<open>join\<close> converts the elements with
  \<^verbatim>\<open>String\<close>. The separator is a middle dot (0xB7) between spaces.
\<close>

definition rowMeta :: "env \<Rightarrow> heap \<Rightarrow> jsval \<Rightarrow> js_error + dom list" where
  "rowMeta e h entry =
     (let metaBits = (if truthy (field h entry (ascii ''id'')) then [field h entry (ascii ''id'')]
                      else [])
      in if metaBits = [] then Inr []
         else bindE (mapE (toStr e h) metaBits)
                (\<lambda>bits. Inr [el ''div'' ''chapter-meta'' (Some (joinStr [0x20, 0xB7, 0x20] bits))]))"

text \<open>
  The anchor of a row: \<^verbatim>\<open>href\<close>, and the \<^verbatim>\<open>active\<close> class with \<^verbatim>\<open>aria-current\<close> when
  the page's path ends with the output path.
\<close>

definition rowAnchor :: "jstring \<Rightarrow> jstring \<Rightarrow> jstring \<Rightarrow> dom list \<Rightarrow> dom" where
  "rowAnchor hrefText output currentPath kids =
     (if output \<noteq> [] \<and> suffix output currentPath
      then Element ''a'' ''chapter-row active''
             [(''href'', hrefText), (''aria-current'', ascii ''page'')] kids
      else Element ''a'' ''chapter-row'' [(''href'', hrefText)] kids)"

text \<open>
  One turn of the loop of \<^verbatim>\<open>renderList\<close> (lines 85 to 135). The read of
  \<^verbatim>\<open>entry.output\<close> is the first read of the entry. \<open>rowTitle\<close> is
  \<^verbatim>\<open>safeText(entry.title || entry.title_text || entry.id || href)\<close>. The \<^verbatim>\<open>if\<close> of lines
  107 to 110 has an empty body and reads only properties of the entry.
\<close>

definition rowTitle :: "env \<Rightarrow> heap \<Rightarrow> jsval \<Rightarrow> jstring \<Rightarrow> js_error + jstring" where
  "rowTitle e h entry hrefText =
     safeText e h (orElse (field h entry (ascii ''title''))
                    (orElse (field h entry (ascii ''title_text''))
                      (orElse (field h entry (ascii ''id'')) (JStr hrefText))))"

definition renderRow :: "env \<Rightarrow> options \<Rightarrow> heap \<Rightarrow> jstring \<Rightarrow> jsval \<Rightarrow> js_error + dom" where
  "renderRow e opts h currentPath entry =
     bindE (getProp h entry (ascii ''output'')) (\<lambda>out.
     bindE (normalizePath e h out) (\<lambda>output.
     bindE (rowTitle e h entry output) (\<lambda>titleText.
     bindE (rowMeta e h entry) (\<lambda>meta.
     bindE (rowBadges e opts h entry) (\<lambda>badges.
       Inr (rowAnchor output output currentPath
              [Element ''div'' ''chapter-left'' []
                 (el ''div'' ''chapter-title'' (Some titleText) # meta),
               Element ''div'' ''chapter-right'' [] badges]))))))"

definition renderList :: "env \<Rightarrow> options \<Rightarrow> heap \<Rightarrow> jstring \<Rightarrow> jsval \<Rightarrow> js_error + dom" where
  "renderList e opts h arc entries =
     bindE (getCurrentPathnameNormalized e) (\<lambda>currentPath.
     bindE (mapE (renderRow e opts h currentPath) (elements h entries))
       (\<lambda>rows. Inr (Element ''div'' ''chapter-list'' [] rows)))"

text \<open>
  The \<^verbatim>\<open>try\<close> block of \<^verbatim>\<open>buildNav\<close> (lines 153 to 184): the heap it leaves, and either
  the error it throws or the children of the mount element at its end.
\<close>

definition formatMismatch :: dom where
  "formatMismatch =
     el ''div'' ''nav-error'' (Some (ascii ''Manifest format mismatch (expected schema 2).''))"

definition navTry :: "env \<Rightarrow> options \<Rightarrow> jstring \<Rightarrow> heap \<times> (js_error + dom list)" where
  "navTry e opts arc =
     (case fetchManifest e (manifestPath opts) of
        Inl err \<Rightarrow> ([], Inl err)
      | Inr (h, manifest) \<Rightarrow>
          (case pickArcEntries h manifest arc of
             Inl err \<Rightarrow> (h, Inl err)
           | Inr entries \<Rightarrow>
               if \<not> truthy entries then (h, Inr [formatMismatch])
               else if field h entries (ascii ''length'') = JNum (Fin 0)
               then (h, Inr [el ''div'' ''nav-empty'' (Some (emptyMessage opts))])
               else
                 (case arraySlice h entries of
                    (h1, copy) \<Rightarrow>
                      (case arraySort (defensiveCompare e h1) h1 copy of
                         (h2, Inl err) \<Rightarrow> (h2, Inl err)
                       | (h2, Inr srt) \<Rightarrow>
                           (case renderList e opts h2 arc srt of
                              Inl err \<Rightarrow> (h2, Inl err)
                            | Inr listEl \<Rightarrow> (h2, Inr [listEl]))))))"

text \<open>
  \<^verbatim>\<open>buildNav(arc, mountId, opts)\<close>. \<open>mountEl\<close> is the element the page has for
  \<open>mountId\<close>, if any. Its children are removed and the loading element is shown
  until the \<^verbatim>\<open>try\<close> block or the \<^verbatim>\<open>catch\<close> block calls \<^verbatim>\<open>clearEl\<close> again, which
  every path does before it appends its own element. The result is how the promise
  settles: \<open>Inl\<close> is a rejection, \<open>Inr\<close> gives the children of the mount element
  (\<open>None\<close> without a mount element), the heap and what was written with
  \<^verbatim>\<open>console.error\<close>.
\<close>

record nav_result =
  mountChildren :: "dom list option"
  heapAfter :: heap
  consoleErrors :: "jstring list"

definition loadFailed :: "js_error \<Rightarrow> dom" where
  "loadFailed err =
     (let msg = (if errMessage err \<noteq> [] then errMessage err else errToString err)
      in el ''div'' ''nav-error''
           (Some (ascii ''Couldn'' @ [0x2019] @ ascii ''t load chapters. '' @ msg)))"

definition buildNav ::
  "env \<Rightarrow> options \<Rightarrow> jstring \<Rightarrow> jstring \<Rightarrow> dom option \<Rightarrow> js_error + nav_result" where
  "buildNav e opts arc mountId mountEl =
     (case mountEl of
        None \<Rightarrow>
          Inr \<lparr>mountChildren = None, heapAfter = [],
               consoleErrors = [ascii ''[navgen] mount element not found: '' @ mountId]\<rparr>
      | Some m \<Rightarrow>
          (case navTry e opts arc of
             (h, Inr kids) \<Rightarrow> Inr \<lparr>mountChildren = Some kids, heapAfter = h, consoleErrors = []\<rparr>
           | (h, Inl err) \<Rightarrow>
               Inr \<lparr>mountChildren = Some [loadFailed err], heapAfter = h,
                    consoleErrors = [ascii ''[navgen] Error: '' @ errToString err]\<rparr>))"

section \<open>src/unnamed/part 000: navgen with the folder tree\<close>

text \<open>\<^verbatim>\<open>getSiteBase()\<close> and \<^verbatim>\<open>toAbsoluteFromSiteBase(relativePath)\<close>.\<close>

definition getSiteBase :: "env \<Rightarrow> jstring" where
  "getSiteBase e =
     (let p = location_pathname e in
      case indexOf p (ascii ''/content/'') of
        Some idx \<Rightarrow> location_origin e @ take (idx + 1) p
      | None \<Rightarrow> location_origin e @ (if suffix [0x2F] p then p else stripLastSegment p))"

definition toAbsoluteFromSiteBase :: "env \<Rightarrow> jstring \<Rightarrow> js_error + jstring" where
  "toAbsoluteFromSiteBase e relativePath = newURL e relativePath (getSiteBase e)"

definition fetchManifest_tree :: "env \<Rightarrow> jstring \<Rightarrow> js_error + heap \<times> jsval" where
  "fetchManifest_tree e path = bindE (toAbsoluteFromSiteBase e path) (\<lambda>url. fetchJson e url)"

text \<open>\<^verbatim>\<open>humanizeSegment(seg)\<close>, called on strings only.\<close>

definition titleWord :: "env \<Rightarrow> jstring \<Rightarrow> jstring" where
  "titleWord e w =
     (if length w \<le> 2 then toUpperCase e w
      else toUpperCase e [hd w] @ toLowerCase e (tl w))"

definition humanizeSegment :: "env \<Rightarrow> jstring \<Rightarrow> jstring" where
  "humanizeSegment e seg =
     (let s = trim (separatorsToSpace (stripHtmlSuffix seg)) in
      if s = [] then []
      else joinStr [0x20] (map (titleWord e) (filter (\<lambda>w. w \<noteq> []) (splitStr [0x20] s))))"

definition stripArcFromOutput :: "env \<Rightarrow> heap \<Rightarrow> jsval \<Rightarrow> jstring \<Rightarrow> js_error + jstring" where
  "stripArcFromOutput e h output arc =
     bindE (normalizePath e h output) (\<lambda>out.
       let pfx = ascii ''content/'' @ arc @ ascii ''/''
       in Inr (if prefix pfx out then drop (length pfx) out else out))"

text \<open>
  \<^verbatim>\<open>leafTitleFromEntry(entry)\<close>: the last piece of a title of the form "a / b / leaf";
  for every other title the file name of \<^verbatim>\<open>entry.output\<close> without \<^verbatim>\<open>.html\<close>.
\<close>

definition leafTitleFromEntry :: "env \<Rightarrow> heap \<Rightarrow> jsval \<Rightarrow> js_error + jstring" where
  "leafTitleFromEntry e h entry =
     bindE (getProp h entry (ascii ''title'')) (\<lambda>title.
     bindE (safeText e h (orElse title
                           (orElse (field h entry (ascii ''title_text''))
                             (orElse (field h entry (ascii ''id'')) (JStr []))))) (\<lambda>raw.
       let cleaned = trim (stripTypeLetter raw);
           parts = filter (\<lambda>p. p \<noteq> []) (map trim (splitStr (ascii '' / '') cleaned))
       in if includesStr cleaned (ascii '' / '') \<and> parts \<noteq> [] then Inr (last parts)
          else
            bindE (normalizePath e h (field h entry (ascii ''output''))) (\<lambda>out.
              let popped = last (splitStr [0x2F] out);
                  name = (if popped \<noteq> [] then popped else out)
              in Inr (stripHtmlSuffix name))))"

text \<open>
  \<^verbatim>\<open>makeRow(entry, options, currentPath)\<close>: the link is resolved against the site base.
  \<open>rowTitle_tree\<close> is
  \<^verbatim>\<open>safeText(titleText || entry.title || entry.title_text || entry.id || output)\<close>.
\<close>

definition rowTitle_tree :: "env \<Rightarrow> heap \<Rightarrow> jsval \<Rightarrow> jstring \<Rightarrow> jstring \<Rightarrow> js_error + jstring" where
  "rowTitle_tree e h entry titleText output =
     safeText e h (orElse (JStr titleText)
                    (orElse (field h entry (ascii ''title''))
                      (orElse (field h entry (ascii ''title_text''))
                        (orElse (field h entry (ascii ''id'')) (JStr output)))))"

definition makeRow :: "env \<Rightarrow> options \<Rightarrow> heap \<Rightarrow> jstring \<Rightarrow> jsval \<Rightarrow> js_error + dom" where
  "makeRow e opts h currentPath entry =
     bindE (getProp h entry (ascii ''output'')) (\<lambda>out.
     bindE (normalizePath e h out) (\<lambda>output.
     bindE (toAbsoluteFromSiteBase e output) (\<lambda>hrefAbs.
     bindE (leafTitleFromEntry e h entry) (\<lambda>leaf.
     bindE (rowTitle_tree e h entry (humanizeSegment e leaf) output) (\<lambda>titleText.
     bindE (rowMeta e h entry) (\<lambda>meta.
     bindE (rowBadges e opts h entry) (\<lambda>badges.
       Inr (rowAnchor hrefAbs output currentPath
              [Element ''div'' ''chapter-left'' []
                 (el ''div'' ''chapter-title'' (Some titleText) # meta),
               Element ''div'' ''chapter-right'' [] badges]))))))))"

definition renderList_tree :: "env \<Rightarrow> options \<Rightarrow> heap \<Rightarrow> jstring \<Rightarrow> jsval \<Rightarrow> js_error + dom" where
  "renderList_tree e opts h arc entries =
     bindE (getCurrentPathnameNormalized e) (\<lambda>currentPath.
     bindE (mapE (makeRow e opts h currentPath) (elements h entries))
       (\<lambda>rows. Inr (Element ''div'' ''chapter-list'' [] rows)))"

text \<open>
  The tree of \<^verbatim>\<open>buildTree\<close>: a node has its folders, a \<^verbatim>\<open>Map\<close> from folder names to
  nodes in the order of insertion, and its pages. The nodes are objects that
  \<^verbatim>\<open>buildTree\<close> creates itself, so they are values here and not cells of the heap; the
  pages are the entries of the manifest, by reference.
\<close>

datatype node = Node "(jstring \<times> node) list" "jsval list"

definition emptyNode :: node where
  "emptyNode = Node [] []"

definition folders :: "node \<Rightarrow> (jstring \<times> node) list" where
  "folders n = (case n of Node fs ps \<Rightarrow> fs)"

definition pages :: "node \<Rightarrow> jsval list" where
  "pages n = (case n of Node fs ps \<Rightarrow> ps)"

text \<open>
  The walk of lines 239 to 248: below the folder \<open>k\<close>, created when it is not there
  yet, and a push of the entry to the pages of the node reached.
\<close>

fun updateFolder ::
  "jstring \<Rightarrow> (node \<Rightarrow> node) \<Rightarrow> (jstring \<times> node) list \<Rightarrow> (jstring \<times> node) list" where
  "updateFolder k g [] = [(k, g emptyNode)]"
| "updateFolder k g ((k', c) # fs) =
     (if k' = k then (k', g c) # fs else (k', c) # updateFolder k g fs)"

primrec insertPage :: "jstring list \<Rightarrow> jsval \<Rightarrow> node \<Rightarrow> node" where
  "insertPage [] entry = (\<lambda>n. case n of Node fs ps \<Rightarrow> Node fs (ps @ [entry]))"
| "insertPage (folder # rest) entry =
     (\<lambda>n. case n of Node fs ps \<Rightarrow> Node (updateFolder folder (insertPage rest entry) fs) ps)"

text \<open>
  Lines 227 to 237: the folders of an entry are the pieces of its output path, without
  the arc's prefix, before the last; \<^verbatim>\<open>rel\<close> is a string when it is normalized again.
\<close>

definition folderParts :: "env \<Rightarrow> heap \<Rightarrow> jstring \<Rightarrow> jsval \<Rightarrow> js_error + jstring list" where
  "folderParts e h arc output =
     bindE (stripArcFromOutput e h output arc) (\<lambda>rel.
     bindE (normalizePath e h (JStr rel)) (\<lambda>norm.
       let parts = filter (\<lambda>p. p \<noteq> []) (splitStr [0x2F] norm)
       in Inr (if parts = [] then [] else butlast parts)))"

definition treeStep :: "env \<Rightarrow> heap \<Rightarrow> jstring \<Rightarrow> node \<Rightarrow> jsval \<Rightarrow> js_error + node" where
  "treeStep e h arc tree entry =
     bindE (getProp h entry (ascii ''output'')) (\<lambda>out.
     bindE (folderParts e h arc out) (\<lambda>fp. Inr (insertPage fp entry tree)))"

fun foldE :: "('s \<Rightarrow> 'a \<Rightarrow> 'e + 's) \<Rightarrow> 's \<Rightarrow> 'a list \<Rightarrow> 'e + 's" where
  "foldE f s [] = Inr s"
| "foldE f s (x # xs) = (case f s x of Inl e \<Rightarrow> Inl e | Inr s' \<Rightarrow> foldE f s' xs)"

definition buildTree :: "env \<Rightarrow> heap \<Rightarrow> jsval list \<Rightarrow> jstring \<Rightarrow> js_error + node" where
  "buildTree e h entries arc = foldE (treeStep e h arc) emptyNode entries"

text \<open>Facts that the recursions over the tree need for their termination.\<close>

lemma insertE_set: "insertE cmp x ys = Inr r \<Longrightarrow> set r = insert x (set ys)"
proof (induction ys arbitrary: r)
  case Nil
  then show ?case by auto
next
  case (Cons y ys)
  show ?case
  proof (cases "cmp x y")
    case (Inl e)
    with Cons.prems show ?thesis by simp
  next
    case (Inr c)
    show ?thesis
    proof (cases "gtZero c")
      case False
      with Inr Cons.prems show ?thesis by auto
    next
      case True
      with Inr Cons.prems obtain r' where r': "insertE cmp x ys = Inr r'" and r: "r = y # r'"
        by (auto split: sum.splits)
      from Cons.IH [OF r'] r show ?thesis by auto
    qed
  qed
qed

lemma sortE_set: "sortE cmp xs = Inr ys \<Longrightarrow> set ys = set xs"
proof (induction xs arbitrary: ys)
  case Nil
  then show ?case by simp
next
  case (Cons x xs)
  then obtain s where s: "sortE cmp xs = Inr s" and i: "insertE cmp x s = Inr ys"
    by (auto split: sum.splits)
  from Cons.IH [OF s] insertE_set [OF i] show ?case by simp
qed

lemma node_child_size: "kc \<in> set fs \<Longrightarrow> size (snd kc) < size (Node fs ps)"
proof (induction fs)
  case Nil
  then show ?case by simp
next
  case (Cons a fs)
  then show ?case by (cases a; cases kc) auto
qed

text \<open>
  \<^verbatim>\<open>sortNode(node)\<close>: the pages are sorted in place by their humanized leaf title, the
  folder names by their humanized name (the source sorts the keys and fills a new
  \<^verbatim>\<open>Map\<close> in that order; the keys of a \<^verbatim>\<open>Map\<close> are distinct, so this sorts the pairs
  by their key), and then every child is sorted, in the new order.
\<close>

definition pageCompare :: "env \<Rightarrow> heap \<Rightarrow> jsval \<Rightarrow> jsval \<Rightarrow> js_error + jsnum option" where
  "pageCompare e h a b =
     bindE (leafTitleFromEntry e h a) (\<lambda>la.
     bindE (leafTitleFromEntry e h b) (\<lambda>lb.
       Inr (numOfInt (localeCompare e (toLowerCase e (humanizeSegment e la))
                                      (toLowerCase e (humanizeSegment e lb))))))"

definition folderCompare ::
  "env \<Rightarrow> jstring \<times> node \<Rightarrow> jstring \<times> node \<Rightarrow> js_error + jsnum option" where
  "folderCompare e a b =
     Inr (numOfInt (localeCompare e (toLowerCase e (humanizeSegment e (fst a)))
                                    (toLowerCase e (humanizeSegment e (fst b)))))"

function sortNode :: "env \<Rightarrow> heap \<Rightarrow> node \<Rightarrow> js_error + node" where
  "sortNode e h (Node fs ps) =
     (case sortE (pageCompare e h) ps of
        Inl err \<Rightarrow> Inl err
      | Inr ps' \<Rightarrow>
          (case sortE (folderCompare e) fs of
             Inl err \<Rightarrow> Inl err
           | Inr fs' \<Rightarrow>
               (case mapE (\<lambda>kc. case sortNode e h (snd kc) of
                                    Inl err \<Rightarrow> Inl err
                                  | Inr c \<Rightarrow> Inr (fst kc, c)) fs' of
                  Inl err \<Rightarrow> Inl err
                | Inr fs'' \<Rightarrow> Inr (Node fs'' ps'))))"
  by pat_completeness auto
termination
proof (relation "measure (\<lambda>(e, h, n). size n)", goal_cases)
  case 1
  then show ?case by simp
next
  case (2 e h fs ps ps' fs' kc)
  then have "kc \<in> set fs" using sortE_set by blast
  then show ?case using node_child_size [of kc fs ps] by simp
qed

text \<open>
  \<^verbatim>\<open>renderTree(mountEl, arc, tree, options)\<close> with its inner \<^verbatim>\<open>renderNode\<close>: a
  \<^verbatim>\<open>details\<close> element per folder, open at depth 0, with the rows of its pages before
  its folders. The element is built apart and appended to the mount at the end.
\<close>

definition pageRows ::
  "env \<Rightarrow> options \<Rightarrow> heap \<Rightarrow> jstring \<Rightarrow> jsval list \<Rightarrow> js_error + dom list" where
  "pageRows e opts h currentPath ps =
     (if ps = [] then Inr []
      else bindE (mapE (makeRow e opts h currentPath) ps)
             (\<lambda>rows. Inr [Element ''div'' ''chapter-list'' [] rows]))"

function renderNode ::
  "env \<Rightarrow> options \<Rightarrow> heap \<Rightarrow> jstring \<Rightarrow> node \<Rightarrow> jstring \<Rightarrow> int \<Rightarrow> js_error + dom" where
  "renderNode e opts h currentPath (Node fs ps) label depth =
     (case pageRows e opts h currentPath ps of
        Inl err \<Rightarrow> Inl err
      | Inr pagesPart \<Rightarrow>
          (case mapE (\<lambda>kc. renderNode e opts h currentPath (snd kc) (fst kc) (depth + 1)) fs of
             Inl err \<Rightarrow> Inl err
           | Inr groups \<Rightarrow>
               Inr (Element ''details'' ''nav-group'' (if depth \<le> 0 then [(''open'', [])] else [])
                      [el ''summary'' ''nav-group-title'' (Some (humanizeSegment e label)),
                       Element ''div'' ''nav-group-body'' [] (pagesPart @ groups)])))"
  by pat_completeness auto
termination
proof (relation "measure (\<lambda>(e, opts, h, cp, n, l, d). size n)", goal_cases)
  case 1
  then show ?case by simp
next
  case (2 e opts h cp fs ps label depth pagesPart kc)
  then show ?case using node_child_size [of kc fs ps] by simp
qed

definition renderTree :: "env \<Rightarrow> options \<Rightarrow> heap \<Rightarrow> jstring \<Rightarrow> node \<Rightarrow> js_error + dom" where
  "renderTree e opts h arc tree =
     bindE (getCurrentPathnameNormalized e) (\<lambda>currentPath.
     bindE (pageRows e opts h currentPath (pages tree)) (\<lambda>rootList.
     bindE (mapE (\<lambda>kc. renderNode e opts h currentPath (snd kc) (fst kc) 0) (folders tree))
       (\<lambda>groups. Inr (Element ''div'' ''nav-tree'' [] (rootList @ groups)))))"

text \<open>The comparator of the defensive sort in this file (lines 359 to 370).\<close>

definition sortTitle_tree :: "env \<Rightarrow> heap \<Rightarrow> jsval \<Rightarrow> js_error + jstring" where
  "sortTitle_tree e h a =
     bindE (toStr e h (orElse (field h a (ascii ''title''))
                         (orElse (field h a (ascii ''title_text''))
                           (orElse (field h a (ascii ''id'')) (JStr [])))))
       (\<lambda>s. Inr (toLowerCase e s))"

definition defensiveCompare_tree ::
  "env \<Rightarrow> heap \<Rightarrow> jsval \<Rightarrow> jsval \<Rightarrow> js_error + jsnum option" where
  "defensiveCompare_tree e h a b =
     bindE (getProp h a (ascii ''index'')) (\<lambda>aidx.
     bindE (getProp h b (ascii ''index'')) (\<lambda>bidx.
       case (numberOrNull aidx, numberOrNull bidx) of
         (Some ai, Some bi) \<Rightarrow> Inr (numSub ai bi)
       | _ \<Rightarrow>
           bindE (sortTitle_tree e h a) (\<lambda>ta.
           bindE (sortTitle_tree e h b) (\<lambda>tb.
             Inr (numOfInt (localeCompare e ta tb))))))"

text \<open>The \<^verbatim>\<open>try\<close> block of \<^verbatim>\<open>buildNav\<close> (lines 342 to 380) and \<^verbatim>\<open>buildNav\<close>.\<close>

definition renderArc :: "env \<Rightarrow> options \<Rightarrow> heap \<Rightarrow> jstring \<Rightarrow> jsval \<Rightarrow> js_error + dom" where
  "renderArc e opts h arc srt =
     (if arc = ascii ''lore'' \<or> arc = ascii ''characters''
      then bindE (buildTree e h (elements h srt) arc) (\<lambda>tree.
           bindE (sortNode e h tree) (\<lambda>tree'.
             renderTree e opts h arc tree'))
      else renderList_tree e opts h arc srt)"

definition navTry_tree :: "env \<Rightarrow> options \<Rightarrow> jstring \<Rightarrow> heap \<times> (js_error + dom list)" where
  "navTry_tree e opts arc =
     (case fetchManifest_tree e (manifestPath opts) of
        Inl err \<Rightarrow> ([], Inl err)
      | Inr (h, manifest) \<Rightarrow>
          (case pickArcEntries h manifest arc of
             Inl err \<Rightarrow> (h, Inl err)
           | Inr entries \<Rightarrow>
               if \<not> truthy entries then (h, Inr [formatMismatch])
               else if field h entries (ascii ''length'') = JNum (Fin 0)
               then (h, Inr [el ''div'' ''nav-empty'' (Some (emptyMessage opts))])
               else
                 (case arraySlice h entries of
                    (h1, copy) \<Rightarrow>
                      (case arraySort (defensiveCompare_tree e h1) h1 copy of
                         (h2, Inl err) \<Rightarrow> (h2, Inl err)
                       | (h2, Inr srt) \<Rightarrow>
                           (case renderArc e opts h2 arc srt of
                              Inl err \<Rightarrow> (h2, Inl err)
                            | Inr navEl \<Rightarrow> (h2, Inr [navEl]))))))"

definition buildNav_tree ::
  "env \<Rightarrow> options \<Rightarrow> jstring \<Rightarrow> jstring \<Rightarrow> dom option \<Rightarrow> js_error + nav_result" where
  "buildNav_tree e opts arc mountId mountEl =
     (case mountEl of
        None \<Rightarrow>
          Inr \<lparr>mountChildren = None, heapAfter = [],
               consoleErrors = [ascii ''[navgen] mount element not found: '' @ mountId]\<rparr>
      | Some m \<Rightarrow>
          (case navTry_tree e opts arc of
             (h, Inr kids) \<Rightarrow> Inr \<lparr>mountChildren = Some kids, heapAfter = h, consoleErrors = []\<rparr>
           | (h, Inl err) \<Rightarrow>
               Inr \<lparr>mountChildren = Some [loadFailed err], heapAfter = h,
                    consoleErrors = [ascii ''[navgen] Error: '' @ errToString err]\<rparr>))"


section \<open>Reading the page\<close>

text \<open>
  What a reader of the page sees of the navigation: the \<^verbatim>\<open>className\<close> of a node, and,
  in document order, the texts of the row titles (\<^verbatim>\<open>.chapter-title\<close>), of the group
  titles (\<^verbatim>\<open>.nav-group-title\<close>) and the link targets of the rows.
\<close>

definition className :: "dom \<Rightarrow> string" where
  "className d = (case d of Element tag cls attrs kids \<Rightarrow> cls | TextNode t \<Rightarrow> [])"

fun textContent :: "dom \<Rightarrow> jstring" where
  "textContent (TextNode t) = t"
| "textContent (Element tag cls attrs kids) = concat (map textContent kids)"

fun textsOfClass :: "string \<Rightarrow> dom \<Rightarrow> jstring list" where
  "textsOfClass c (TextNode t) = []"
| "textsOfClass c (Element tag cls attrs kids) =
     (if cls = c then [concat (map textContent kids)] else [])
     @ concat (map (textsOfClass c) kids)"

fun linkTargets :: "dom \<Rightarrow> jstring list" where
  "linkTargets (TextNode t) = []"
| "linkTargets (Element tag cls attrs kids) =
     (case map_of attrs ''href'' of Some u \<Rightarrow> [u] | None \<Rightarrow> [])
     @ concat (map linkTargets kids)"

definition mountOf :: "js_error + nav_result \<Rightarrow> dom list" where
  "mountOf r =
     (case r of
        Inl err \<Rightarrow> []
      | Inr res \<Rightarrow> (case mountChildren res of None \<Rightarrow> [] | Some kids \<Rightarrow> kids))"

definition shownTitles :: "js_error + nav_result \<Rightarrow> jstring list" where
  "shownTitles r = concat (map (textsOfClass ''chapter-title'') (mountOf r))"

definition shownGroups :: "js_error + nav_result \<Rightarrow> jstring list" where
  "shownGroups r = concat (map (textsOfClass ''nav-group-title'') (mountOf r))"

definition shownLinks :: "js_error + nav_result \<Rightarrow> jstring list" where
  "shownLinks r = concat (map linkTargets (mountOf r))"

text \<open>Whether the page shows the error element.\<close>

definition showsError :: "js_error + nav_result \<Rightarrow> bool" where
  "showsError r = (''nav-error'' \<in> set (map className (mountOf r)))"

text \<open>
  The numeric \<^verbatim>\<open>index\<close> of an entry that has one (0 stands for an entry without), and
  the place of a number in the order of the numbers: \<^verbatim>\<open>-Infinity\<close> is below and
  \<^verbatim>\<open>Infinity\<close> above every finite number.
\<close>

definition entryIndex :: "heap \<Rightarrow> jsval \<Rightarrow> jsnum" where
  "entryIndex h x =
     (case numberOrNull (field h x (ascii ''index'')) of Some n \<Rightarrow> n | None \<Rightarrow> Fin 0)"

definition numKey :: "jsnum \<Rightarrow> int \<times> rat" where
  "numKey n = (case n of NegInf \<Rightarrow> (- 1, 0) | Fin q \<Rightarrow> (0, q) | PosInf \<Rightarrow> (1, 0))"

definition indexKey :: "heap \<Rightarrow> jsval \<Rightarrow> int \<times> rat" where
  "indexKey h x = numKey (entryIndex h x)"

text \<open>\<^verbatim>\<open>entry.title || entry.title_text || entry.id || ""\<close>, the value both files take a title from.\<close>

definition titleOrId :: "heap \<Rightarrow> jsval \<Rightarrow> jsval" where
  "titleOrId h entry =
     orElse (field h entry (ascii ''title''))
       (orElse (field h entry (ascii ''title_text''))
         (orElse (field h entry (ascii ''id'')) (JStr [])))"

text \<open>
  Two heaps of the same shape that differ at most in what the objects hold under the
  key \<^verbatim>\<open>output\<close>: the arrays are the same, and so is every other property of every
  object.
\<close>

definition sameButOutput :: "heap \<Rightarrow> heap \<Rightarrow> bool" where
  "sameButOutput h1 h2 =
     (length h1 = length h2
      \<and> (\<forall>a < length h1.
            case (h1 ! a, h2 ! a) of
              (Arr xs, Arr ys) \<Rightarrow> xs = ys
            | (Obj ps, Obj qs) \<Rightarrow> (\<forall>k. k \<noteq> ascii ''output'' \<longrightarrow> map_of ps k = map_of qs k)
            | _ \<Rightarrow> False))"

text \<open>
  A title of the form "a / b / leaf", as \<^verbatim>\<open>leafTitleFromEntry\<close> tests it, and the leaf
  it shows.
\<close>

definition pathLike :: "jstring \<Rightarrow> bool" where
  "pathLike raw =
     (let cleaned = trim (stripTypeLetter raw)
      in includesStr cleaned (ascii '' / '')
         \<and> filter (\<lambda>p. p \<noteq> []) (map trim (splitStr (ascii '' / '') cleaned)) \<noteq> [])"

definition leafOf :: "jstring \<Rightarrow> jstring" where
  "leafOf raw =
     last (filter (\<lambda>p. p \<noteq> []) (map trim (splitStr (ascii '' / '') (trim (stripTypeLetter raw)))))"

text \<open>The group titles of a tree of folders, in the order in which \<^verbatim>\<open>renderTree\<close> walks it.\<close>

fun treeGroups :: "env \<Rightarrow> node \<Rightarrow> jstring list" where
  "treeGroups e (Node fs ps) =
     concat (map (\<lambda>kc. humanizeSegment e (fst kc) # treeGroups e (snd kc)) fs)"

section \<open>Sample data\<close>

text \<open>
  A platform for the examples: strings are compared by their code units, the case
  mappings change the ASCII letters, no string converts to a number, a number that is
  no small integer prints as its integer part, a relative URL is appended to the
  directory of its base, and every request gets the response \<open>r\<close>. The page is
  \<^verbatim>\<open>/STORYHUB/flame.html\<close>.
\<close>

fun lexCompare :: "jstring \<Rightarrow> jstring \<Rightarrow> int" where
  "lexCompare [] [] = 0"
| "lexCompare [] (y # ys) = - 1"
| "lexCompare (x # xs) [] = 1"
| "lexCompare (x # xs) (y # ys) =
     (if x < y then - 1 else if y < x then 1 else lexCompare xs ys)"

definition upperAscii :: "int \<Rightarrow> int" where
  "upperAscii c = (if 0x61 \<le> c \<and> c \<le> 0x7A then c - 0x20 else c)"

definition sampleEnv :: "response \<Rightarrow> env" where
  "sampleEnv r =
     \<lparr>localeCompare = lexCompare, toLowerCase = map lowerAscii, toUpperCase = map upperAscii,
      stringToNumber = (\<lambda>s. None), numberToString = (\<lambda>q. dec_int \<lfloor>q\<rfloor>),
      newURL = (\<lambda>rel base. Inr (stripLastSegment base @ rel)),
      fetch = (\<lambda>url. r),
      location_pathname = ascii ''/STORYHUB/flame.html'',
      location_origin = ascii ''https://user.github.io'',
      baseURI = ascii ''https://user.github.io/STORYHUB/flame.html''\<rparr>"

definition mount0 :: dom where
  "mount0 = Element ''div'' [] [(''id'', ascii ''chapterList'')] []"

text \<open>An object cell from ASCII keys, a string value and an integer value.\<close>

definition obj :: "(string \<times> jsval) list \<Rightarrow> cell" where
  "obj ps = Obj (map (\<lambda>kv. (ascii (fst kv), snd kv)) ps)"

definition strv :: "string \<Rightarrow> jsval" where
  "strv s = JStr (ascii s)"

definition numv :: "int \<Rightarrow> jsval" where
  "numv i = JNum (Fin (of_int i))"

text \<open>
  A manifest of schema 2 at address 6, with two Flame chapters listed out of order and
  an empty Order arc; and a manifest of schema 1 at address 2.
\<close>

definition flameHeap :: heap where
  "flameHeap =
     [obj [(''images_used'', numv 1), (''images_missing'', numv 0)],
      obj [(''id'', strv ''F_02''), (''index'', numv 2), (''title'', strv ''02 SOMETHING''),
           (''output'', strv ''content/flame/02_SOMETHING.html''), (''counts'', JRef 0)],
      obj [(''id'', strv ''F_01''), (''index'', numv 1), (''title'', strv ''01 THRESHOLD''),
           (''output'', strv ''content/flame/01_THRESHOLD.html'')],
      Arr [JRef 1, JRef 2],
      Arr [],
      obj [(''flame'', JRef 3), (''order'', JRef 4)],
      obj [(''schema'', numv 2), (''root'', strv ''STORYHUB''), (''arcs'', JRef 5)]]"

definition schema1Heap :: heap where
  "schema1Heap =
     [Arr [],
      obj [(''flame'', JRef 0)],
      obj [(''schema'', numv 1), (''arcs'', JRef 1)]]"

text \<open>
  A Flame arc whose two entries have the same index, and a Lore arc whose entries have
  a numeric index.
\<close>

definition dupHeap :: heap where
  "dupHeap =
     [obj [(''id'', strv ''F_01''), (''index'', numv 1), (''title'', strv ''01 FIRST''),
           (''output'', strv ''content/flame/01_FIRST.html'')],
      obj [(''id'', strv ''F_01''), (''index'', numv 1), (''title'', strv ''01 SECOND''),
           (''output'', strv ''content/flame/01_SECOND.html'')],
      Arr [JRef 0, JRef 1],
      obj [(''flame'', JRef 2)],
      obj [(''schema'', numv 2), (''arcs'', JRef 3)]]"

definition loreIndexHeap :: heap where
  "loreIndexHeap =
     [obj [(''index'', numv 1), (''title'', strv ''Zeta''),
           (''output'', strv ''content/lore/eden/zeta.html'')],
      obj [(''index'', numv 2), (''title'', strv ''Alpha''),
           (''output'', strv ''content/lore/eden/alpha.html'')],
      Arr [JRef 0, JRef 1],
      obj [(''lore'', JRef 2)],
      obj [(''schema'', numv 2), (''arcs'', JRef 3)]]"

text \<open>
  A Flame arc whose second chapter has an object with a property \<^verbatim>\<open>toString\<close> for its
  \<^verbatim>\<open>output\<close>: \<^verbatim>\<open>String\<close> of it throws.
\<close>

definition badOutputHeap :: heap where
  "badOutputHeap =
     [obj [(''toString'', numv 1)],
      obj [(''id'', strv ''F_01''), (''index'', numv 1), (''title'', strv ''01 THRESHOLD''),
           (''output'', strv ''content/flame/01_THRESHOLD.html'')],
      obj [(''id'', strv ''F_02''), (''index'', numv 2), (''title'', strv ''02 SOMETHING''),
           (''output'', JRef 0)],
      Arr [JRef 2, JRef 1],
      obj [(''flame'', JRef 3)],
      obj [(''schema'', numv 2), (''arcs'', JRef 4)]]"

text \<open>A manifest whose Flame arc holds two \<^verbatim>\<open>null\<close> entries.\<close>

definition nullsHeap :: heap where
  "nullsHeap =
     [Arr [JNull, JNull],
      obj [(''flame'', JRef 0)],
      obj [(''schema'', numv 2), (''arcs'', JRef 1)]]"

text \<open>
  A Characters arc as the character builder writes it: sorted by category, then title.
  And one whose second title is an object with a property \<^verbatim>\<open>toString\<close>.
\<close>

definition charactersHeap :: heap where
  "charactersHeap =
     [obj [(''type'', strv ''C''), (''arc'', strv ''characters''), (''category'', strv ''fiends''),
           (''title'', strv ''Lucy Moore''), (''slug'', strv ''lucy-moore''),
           (''output'', strv ''content/characters/fiends/lucy-moore.html'')],
      obj [(''type'', strv ''C''), (''arc'', strv ''characters''), (''category'', strv ''marauders''),
           (''title'', strv ''Blink''), (''slug'', strv ''blink''),
           (''output'', strv ''content/characters/marauders/blink.html'')],
      Arr [JRef 0, JRef 1],
      obj [(''characters'', JRef 2)],
      obj [(''schema'', numv 2), (''arcs'', JRef 3)]]"

definition badTitleHeap :: heap where
  "badTitleHeap =
     [obj [(''toString'', numv 1)],
      obj [(''title'', strv ''Lucy Moore'')],
      obj [(''title'', JRef 0)]]"

text \<open>
  A manifest with one Lore page of a given title and output path, one with one Flame
  chapter of a given title and output path, and one whose entry has neither title nor
  id; \<open>navOn\<close> and \<open>navOn_tree\<close> run the two files on a manifest with the default
  options.
\<close>

definition loreHeap :: "string \<Rightarrow> string \<Rightarrow> heap" where
  "loreHeap title out =
     [obj [(''type'', strv ''L''), (''arc'', strv ''lore''), (''kind'', strv ''page''),
           (''category'', strv ''wasteland''), (''title'', strv title), (''output'', strv out)],
      Arr [JRef 0],
      obj [(''lore'', JRef 1)],
      obj [(''schema'', numv 2), (''arcs'', JRef 2)]]"

definition chapterHeap :: "string \<Rightarrow> string \<Rightarrow> heap" where
  "chapterHeap title out =
     [obj [(''type'', strv ''F''), (''arc'', strv ''flame''), (''index'', numv 1),
           (''title'', strv title), (''output'', strv out)],
      Arr [JRef 0],
      obj [(''flame'', JRef 1)],
      obj [(''schema'', numv 2), (''arcs'', JRef 2)]]"

definition untitledHeap :: "string \<Rightarrow> heap" where
  "untitledHeap out =
     [obj [(''type'', strv ''L''), (''arc'', strv ''lore''), (''output'', strv out)],
      Arr [JRef 0],
      obj [(''lore'', JRef 1)],
      obj [(''schema'', numv 2), (''arcs'', JRef 2)]]"

definition pageOf :: "heap \<Rightarrow> jsval \<Rightarrow> env" where
  "pageOf h m = sampleEnv (Response 200 (ascii ''OK'') (Json h m))"

definition navOn :: "heap \<Rightarrow> jsval \<Rightarrow> string \<Rightarrow> js_error + nav_result" where
  "navOn h m arc = buildNav (pageOf h m) DEFAULTS (ascii arc) (ascii ''chapterList'') (Some mount0)"

definition navOn_tree :: "heap \<Rightarrow> jsval \<Rightarrow> string \<Rightarrow> js_error + nav_result" where
  "navOn_tree h m arc =
     buildNav_tree (pageOf h m) DEFAULTS (ascii arc) (ascii ''chapterList'') (Some mount0)"


section \<open>The manifest store of the builders\<close>

text \<open>
  The builders (\<^verbatim>\<open>build_chapters.py\<close>, \<^verbatim>\<open>build_characters.py\<close>, \<^verbatim>\<open>build_lore.py\<close>) are not
  among the sources; only their READMEs are. What follows models the ManifestStore of
  the specification (sections 3 and 4.6) from its words.
\<close>

text \<open>Modelled from the spec: the four arcs, the keys of \<^verbatim>\<open>arcs\<close> (the builders are missing).\<close>

datatype arc_name = Flame | Order | Characters | Lore

text \<open>
  Modelled from the spec: a SourceDocument after classification, \<^verbatim>\<open>{path, variantTag,
  arcIndex, rawTitle, category}\<close> (the PathClassifier is missing).
\<close>

record source_document =
  doc_path :: string
  doc_arc :: arc_name
  doc_index :: "nat option"
  doc_title :: string
  doc_category :: "string option"

text \<open>
  Modelled from the spec: a ManifestEntry with the fields the store orders by and those
  the builders fill from a document (the builders are missing).
\<close>

record manifest_entry =
  e_id :: string
  e_arc :: arc_name
  e_index :: nat
  e_category :: string
  e_title :: string
  e_source :: string
  e_output :: string
  e_images :: "string list"
  e_missing_images :: "string list"

text \<open>
  Modelled from the spec: the Manifest, \<^verbatim>\<open>{schema, generated_at, root, arcs}\<close> with
  \<^verbatim>\<open>arcs\<close> a mapping from arc name to an ordered sequence of entries.
\<close>

record manifest =
  schema :: nat
  generated_at :: string
  root :: string
  arcs :: "arc_name \<Rightarrow> manifest_entry list"

text \<open>
  Modelled from the spec: the three build passes and the arcs each owns ("Flame+Order
  together, or Characters alone, or Lore alone").
\<close>

datatype build_pass = ChaptersPass | CharactersPass | LorePass

fun owned :: "build_pass \<Rightarrow> arc_name set" where
  "owned ChaptersPass = {Flame, Order}"
| "owned CharactersPass = {Characters}"
| "owned LorePass = {Lore}"


text \<open>
  Modelled from the spec: the order of an arc's entries, "Flame/Order are ordered by
  index ascending; entries for Character/Lore are ordered by category then title
  (case-insensitive lexical)" (the sort of the builders is missing; a stable sort is
  taken, and the case of the letters A to Z is folded).
\<close>

definition caseFold :: "string \<Rightarrow> string" where
  "caseFold s =
     map (\<lambda>c. let n = of_char c :: nat in if 65 \<le> n \<and> n \<le> 90 then char_of (n + 32) else c) s"

definition referenceKey :: "manifest_entry \<Rightarrow> string \<times> string" where
  "referenceKey en = (caseFold (e_category en), caseFold (e_title en))"

definition orderArc :: "arc_name \<Rightarrow> manifest_entry list \<Rightarrow> manifest_entry list" where
  "orderArc a es =
     (if a = Flame \<or> a = Order then sort_key e_index es else sort_key referenceKey es)"

text \<open>
  Modelled from the spec: the schema constant and the manifest a pass starts from when
  no manifest exists yet.
\<close>

definition schemaVersion :: nat where
  "schemaVersion = 2"

definition newManifest :: "string \<Rightarrow> manifest" where
  "newManifest rootName =
     \<lparr>schema = schemaVersion, generated_at = [], root = rootName, arcs = (\<lambda>a. [])\<rparr>"

text \<open>
  Modelled from the spec: the merge of section 4.6, "reads any existing manifest,
  replaces only the arcs owned by the current pass, updates generated_at, and writes
  the full file back". \<open>built\<close> holds the entries the pass accumulated, \<open>now\<close> the
  time of the pass.
\<close>

definition mergePass ::
  "build_pass \<Rightarrow> manifest_entry list \<Rightarrow> string \<Rightarrow> string \<Rightarrow> manifest option \<Rightarrow> manifest" where
  "mergePass p built now rootName existing =
     (let base = (case existing of None \<Rightarrow> newManifest rootName | Some m \<Rightarrow> m)
      in base\<lparr>generated_at := now,
              arcs := (\<lambda>a. if a \<in> owned p then orderArc a (filter (\<lambda>en. e_arc en = a) built)
                           else arcs base a)\<rparr>)"

text \<open>
  Modelled from the spec: one pass. The documents come in the order in which the file
  system lists them; \<open>process\<close> stands for everything that makes the entry of one
  document from the document and the media directory (conversion, hooks, image
  resolution), \<open>None\<close> for a document without an entry. It is a function: that the
  external converter gives the same markup for the same document is taken for granted.
\<close>

definition accumulated ::
  "(source_document \<Rightarrow> manifest_entry option) \<Rightarrow> build_pass \<Rightarrow> source_document list
     \<Rightarrow> manifest_entry list" where
  "accumulated process p docs =
     List.map_filter process (filter (\<lambda>d. doc_arc d \<in> owned p) docs)"

definition runPass ::
  "(source_document \<Rightarrow> manifest_entry option) \<Rightarrow> build_pass \<Rightarrow> source_document list
     \<Rightarrow> string \<Rightarrow> string \<Rightarrow> manifest option \<Rightarrow> manifest" where
  "runPass process p docs now rootName existing =
     mergePass p (accumulated process p docs) now rootName existing"




text \<open>Sample documents, a sample \<open>process\<close> and an existing manifest with one character.\<close>

definition sampleProcess :: "source_document \<Rightarrow> manifest_entry option" where
  "sampleProcess d =
     Some \<lparr>e_id = doc_title d, e_arc = doc_arc d,
           e_index = (case doc_index d of None \<Rightarrow> 0 | Some n \<Rightarrow> n),
           e_category = (case doc_category d of None \<Rightarrow> [] | Some c \<Rightarrow> c),
           e_title = doc_title d, e_source = doc_path d, e_output = doc_path d @ ''.html'',
           e_images = [], e_missing_images = []\<rparr>"

definition docF01 :: source_document where
  "docF01 = \<lparr>doc_path = ''source-docx/F_01_THRESHOLD.docx'', doc_arc = Flame, doc_index = Some 1,
             doc_title = ''THRESHOLD'', doc_category = None\<rparr>"

definition docF02 :: source_document where
  "docF02 = \<lparr>doc_path = ''source-docx/F_02_SOMETHING.docx'', doc_arc = Flame, doc_index = Some 2,
             doc_title = ''SOMETHING'', doc_category = None\<rparr>"


definition docLucy :: source_document where
  "docLucy = \<lparr>doc_path = ''source-docx/characters/fiends/Lucy Moore.docx'', doc_arc = Characters,
              doc_index = None, doc_title = ''Lucy Moore'', doc_category = Some ''fiends''\<rparr>"

definition blinkEntry :: manifest_entry where
  "blinkEntry = \<lparr>e_id = ''Blink'', e_arc = Characters, e_index = 0, e_category = ''marauders'',
                 e_title = ''Blink'', e_source = ''source-docx/characters/marauders/Blink.docx'',
                 e_output = ''content/characters/marauders/blink.html'',
                 e_images = [], e_missing_images = []\<rparr>"

definition oldManifest :: manifest where
  "oldManifest = \<lparr>schema = 2, generated_at = ''2026-01-01T00:00:00'', root = ''STORYHUB'',
                  arcs = (\<lambda>a. if a = Characters then [blinkEntry] else [])\<rparr>"


chapter \<open>The properties\<close>

section \<open>The lightbox index\<close>

lemma js_rem_nonneg:
  assumes "0 \<le> a" and "0 < n"
  shows "js_rem a n = a mod n"
  using assms by (cases "a = 0") (simp_all add: js_rem_def smod_int_alt_def sgn_if)

lemma js_rem_neg:
  assumes "a < 0" and "0 < n"
  shows "js_rem a n = - ((- a) mod n)"
  using assms by (simp add: js_rem_def smod_int_alt_def sgn_if)

lemma js_rem_wrap:
  assumes "0 < n"
  shows "js_rem (js_rem i n + n) n = i mod n"
proof (cases "0 \<le> i")
  case True
  then have a: "js_rem i n = i mod n"
    using assms by (rule js_rem_nonneg)
  from assms have "0 \<le> i mod n" by simp
  with assms have "0 \<le> i mod n + n" by linarith
  then have "js_rem (i mod n + n) n = (i mod n + n) mod n"
    using assms by (rule js_rem_nonneg)
  with a show ?thesis by simp
next
  case False
  then have neg: "i < 0" by simp
  then have a: "js_rem i n = - ((- i) mod n)"
    using assms by (rule js_rem_neg)
  from assms have lt: "(- i) mod n < n" by simp
  then have "0 \<le> - ((- i) mod n) + n" by linarith
  then have b: "js_rem (- ((- i) mod n) + n) n = (- ((- i) mod n) + n) mod n"
    using assms by (rule js_rem_nonneg)
  have "(- ((- i) mod n) + n) mod n = (- ((- i) mod n)) mod n" by simp
  also have "\<dots> = (- (- i)) mod n" by (simp add: mod_minus_eq)
  finally have "(- ((- i) mod n) + n) mod n = i mod n" by simp
  with a b show ?thesis by simp
qed

lemma openAt_index:
  assumes "page \<noteq> []"
  shows "index (openAt page hc i st) = i mod int (length page)"
  using assms js_rem_wrap [of "int (length page)" i]
  by (simp add: openAt_def Let_def)

lemma openAt_items: "items (openAt page hc i st) = page"
  by (simp add: openAt_def Let_def)

text \<open>
  C10. For a non-empty item list of length \<open>n\<close> and every integer \<open>i\<close>, \<^verbatim>\<open>openAt(i)\<close>
  sets \<^verbatim>\<open>index\<close> to \<^verbatim>\<open>((i % n) + n) % n\<close>, which lies in \<open>[0, n)\<close> (and is \<open>i mod n\<close>);
  \<^verbatim>\<open>next()\<close> from the last item moves to index 0 and \<^verbatim>\<open>prev()\<close> from index 0 moves to
  index \<open>n - 1\<close>; when the page has no gallery item, \<^verbatim>\<open>openAt\<close> returns right after
  \<^verbatim>\<open>refreshItems\<close>: the index and the overlay keep their values and \<^verbatim>\<open>items\<close> is the
  (empty) list just read, so a state whose \<^verbatim>\<open>items\<close> was empty is returned as it is.
\<close>

theorem openAt_index_in_range:
  fixes page :: "gallery_item list" and i :: int and st :: lightbox
  defines "n \<equiv> int (length page)"
  shows "(page \<noteq> [] \<longrightarrow>
            index (openAt page hc i st) = js_rem (js_rem i n + n) n
          \<and> index (openAt page hc i st) = i mod n
          \<and> 0 \<le> index (openAt page hc i st) \<and> index (openAt page hc i st) < n
          \<and> (index st = n - 1 \<longrightarrow> index (next_lb page hc st) = 0)
          \<and> (index st = 0 \<longrightarrow> index (prev_lb page hc st) = n - 1))
       \<and> (page = [] \<longrightarrow>
            openAt page hc i st = st\<lparr>items := []\<rparr>
          \<and> (items st = [] \<longrightarrow> openAt page hc i st = st))"
proof (intro conjI impI)
  assume ne: "page \<noteq> []"
  then have pos: "0 < n" by (simp add: n_def)
  show "index (openAt page hc i st) = js_rem (js_rem i n + n) n"
    using ne by (simp add: openAt_def Let_def n_def)
  show eq: "index (openAt page hc i st) = i mod n"
    using ne by (simp add: openAt_index n_def)
  show "0 \<le> index (openAt page hc i st)" using pos by (simp add: eq)
  show "index (openAt page hc i st) < n" using pos by (simp add: eq)
  {
    assume last: "index st = n - 1"
    have "index (openAt page hc (index st + 1) st) = (index st + 1) mod n"
      using ne by (simp add: openAt_index n_def)
    then show "index (next_lb page hc st) = 0"
      using last pos by (simp add: next_lb_def)
  }
  {
    assume first: "index st = 0"
    have "index (openAt page hc (index st - 1) st) = (index st - 1) mod n"
      using ne by (simp add: openAt_index n_def)
    moreover have "(- 1) mod n = n - 1"
      using pos by (simp add: zmod_minus1)
    ultimately show "index (prev_lb page hc st) = n - 1"
      using first by (simp add: prev_lb_def)
  }
next
  assume e: "page = []"
  show "openAt page hc i st = st\<lparr>items := []\<rparr>"
    using e by (simp add: openAt_def)
  {
    assume "items st = []"
    then show "openAt page hc i st = st"
      using e by (simp add: openAt_def)
  }
qed

text \<open>
  At three items: \<^verbatim>\<open>openAt(-4)\<close> lands on index 2, \<^verbatim>\<open>next()\<close> from index 2 on 0,
  \<^verbatim>\<open>prev()\<close> from index 0 on 2, and on a page without items the initial state stays.
\<close>

theorem openAt_index_in_range_witness:
  "index (openAt [g1, g2, g3] True (- 4) lb_init) = 2
   \<and> index (next_lb [g1, g2, g3] True (lb_init\<lparr>index := 2\<rparr>)) = 0
   \<and> index (prev_lb [g1, g2, g3] True (lb_init\<lparr>index := 0\<rparr>)) = 2
   \<and> openAt [] True 5 lb_init = lb_init"
  using openAt_index_in_range [of "[g1, g2, g3]" True "- 4" lb_init]
    openAt_index_in_range [of "[g1, g2, g3]" True 0 "lb_init\<lparr>index := 2\<rparr>"]
    openAt_index_in_range [of "[g1, g2, g3]" True 0 "lb_init\<lparr>index := 0\<rparr>"]
    openAt_index_in_range [of "[]" True 5 lb_init]
  by (simp add: lb_init_def)


section \<open>Basic facts\<close>

lemma bindE_Inr [simp]: "bindE (Inr x) f = f x"
  by (simp add: bindE_def)

lemma bindE_Inl [simp]: "bindE (Inl e) f = Inl e"
  by (simp add: bindE_def)

lemma getProp_field:
  "v \<noteq> JNull \<Longrightarrow> v \<noteq> JUndefined \<Longrightarrow> getProp h v k = Inr (field h v k)"
  by (cases v) (simp_all add: field_def getProp_def split: option.splits cell.splits)

lemma isArray_truthy: "isArray h v \<Longrightarrow> truthy v"
  by (cases v) (simp_all add: isArray_def truthy_def)

lemma pickArcEntries_eq:
  "pickArcEntries h m a =
     Inr (if (truthy m \<and> typeof m = ''object'') \<and> field h m (ascii ''schema'') = JNum (Fin 2)
             \<and> (truthy (field h m (ascii ''arcs'')) \<and> typeof (field h m (ascii ''arcs'')) = ''object'')
             \<and> isArray h (field h (field h m (ascii ''arcs'')) a)
          then field h (field h m (ascii ''arcs'')) a else JNull)"
proof (cases "truthy m \<and> typeof m = ''object''")
  case False
  then show ?thesis by (auto simp: pickArcEntries_def)
next
  case True
  then have m: "m \<noteq> JNull" "m \<noteq> JUndefined" by (auto simp: truthy_def)
  show ?thesis
  proof (cases "truthy (field h m (ascii ''arcs'')) \<and> typeof (field h m (ascii ''arcs'')) = ''object''")
    case False
    with True m show ?thesis by (auto simp: pickArcEntries_def getProp_field)
  next
    case arcs: True
    then have "field h m (ascii ''arcs'') \<noteq> JNull" "field h m (ascii ''arcs'') \<noteq> JUndefined"
      by (auto simp: truthy_def)
    with True m arcs show ?thesis by (auto simp: pickArcEntries_def getProp_field)
  qed
qed

lemma navTry_mismatch:
  assumes "fetchManifest e (manifestPath opts) = Inr (h, m)"
    and "pickArcEntries h m a = Inr JNull"
  shows "navTry e opts a = (h, Inr [formatMismatch])"
  using assms by (simp add: navTry_def truthy_def)

lemma navTry_tree_mismatch:
  assumes "fetchManifest_tree e (manifestPath opts) = Inr (h, m)"
    and "pickArcEntries h m a = Inr JNull"
  shows "navTry_tree e opts a = (h, Inr [formatMismatch])"
  using assms by (simp add: navTry_tree_def truthy_def)

section \<open>The version gate\<close>

text \<open>
  C1. In the sense of the source's test \<^verbatim>\<open>!x || typeof x !== "object"\<close>, a value is an
  object when it is truthy and its \<^verbatim>\<open>typeof\<close> is \<^verbatim>\<open>"object"\<close> (so \<^verbatim>\<open>null\<close> is none, and
  an array is one). For every fetched value \<open>m\<close> and arc name \<open>a\<close>: if \<open>m\<close> is not an
  object, or \<^verbatim>\<open>m.schema\<close> is not 2, or \<^verbatim>\<open>m.arcs\<close> is not an object, or \<^verbatim>\<open>m.arcs[a]\<close> is
  not an array, then \<^verbatim>\<open>pickArcEntries(m, a)\<close> returns \<^verbatim>\<open>null\<close> and \<^verbatim>\<open>buildNav\<close> (of either
  file) leaves the format-mismatch error element as the only child of the mount, and
  no list; otherwise \<^verbatim>\<open>pickArcEntries\<close> returns the array \<^verbatim>\<open>m.arcs[a]\<close>.
\<close>

theorem pickArcEntries_version_gate:
  fixes h :: heap and m :: jsval and a :: jstring
  defines "arcsVal \<equiv> field h m (ascii ''arcs'')"
  defines "refused \<equiv>
     \<not> (truthy m \<and> typeof m = ''object'') \<or> field h m (ascii ''schema'') \<noteq> JNum (Fin 2)
     \<or> \<not> (truthy arcsVal \<and> typeof arcsVal = ''object'') \<or> \<not> isArray h (field h arcsVal a)"
  shows "(refused \<longrightarrow>
            pickArcEntries h m a = Inr JNull
          \<and> (fetchManifest e (manifestPath opts) = Inr (h, m) \<longrightarrow>
               buildNav e opts a mountId (Some mt) =
                 Inr \<lparr>mountChildren = Some [formatMismatch], heapAfter = h, consoleErrors = []\<rparr>)
          \<and> (fetchManifest_tree e (manifestPath opts) = Inr (h, m) \<longrightarrow>
               buildNav_tree e opts a mountId (Some mt) =
                 Inr \<lparr>mountChildren = Some [formatMismatch], heapAfter = h, consoleErrors = []\<rparr>))
       \<and> (\<not> refused \<longrightarrow>
            pickArcEntries h m a = Inr (field h arcsVal a) \<and> isArray h (field h arcsVal a))"
proof (intro conjI impI)
  assume r: refused
  then show null: "pickArcEntries h m a = Inr JNull"
    unfolding refused_def arcsVal_def by (auto simp: pickArcEntries_eq)
  {
    assume "fetchManifest e (manifestPath opts) = Inr (h, m)"
    then have "navTry e opts a = (h, Inr [formatMismatch])"
      using null by (rule navTry_mismatch)
    then show "buildNav e opts a mountId (Some mt) =
        Inr \<lparr>mountChildren = Some [formatMismatch], heapAfter = h, consoleErrors = []\<rparr>"
      by (simp add: buildNav_def)
  }
  {
    assume "fetchManifest_tree e (manifestPath opts) = Inr (h, m)"
    then have "navTry_tree e opts a = (h, Inr [formatMismatch])"
      using null by (rule navTry_tree_mismatch)
    then show "buildNav_tree e opts a mountId (Some mt) =
        Inr \<lparr>mountChildren = Some [formatMismatch], heapAfter = h, consoleErrors = []\<rparr>"
      by (simp add: buildNav_tree_def)
  }
next
  assume "\<not> refused"
  then show "pickArcEntries h m a = Inr (field h arcsVal a)"
    unfolding refused_def arcsVal_def by (simp add: pickArcEntries_eq)
next
  assume "\<not> refused"
  then show "isArray h (field h arcsVal a)"
    unfolding refused_def by simp
qed

text \<open>
  On the manifest of schema 1 the gate refuses and both files show the mismatch
  element; on the manifest of schema 2 the Flame arc is the array at address 3.
\<close>

theorem pickArcEntries_version_gate_witness:
  "pickArcEntries schema1Heap (JRef 2) (ascii ''flame'') = Inr JNull
   \<and> buildNav (pageOf schema1Heap (JRef 2)) DEFAULTS
        (ascii ''flame'') (ascii ''chapterList'') (Some mount0) =
       Inr \<lparr>mountChildren = Some [formatMismatch], heapAfter = schema1Heap, consoleErrors = []\<rparr>
   \<and> buildNav_tree (pageOf schema1Heap (JRef 2)) DEFAULTS
        (ascii ''flame'') (ascii ''chapterList'') (Some mount0) =
       Inr \<lparr>mountChildren = Some [formatMismatch], heapAfter = schema1Heap, consoleErrors = []\<rparr>
   \<and> pickArcEntries flameHeap (JRef 6) (ascii ''flame'') = Inr (JRef 3)
   \<and> isArray flameHeap (JRef 3)"
proof -
  let ?e = "pageOf schema1Heap (JRef 2)"
  have s: "field schema1Heap (JRef 2) (ascii ''schema'') \<noteq> JNum (Fin 2)"
    by code_simp
  have f: "fetchManifest ?e (manifestPath DEFAULTS) = Inr (schema1Heap, JRef 2)"
    by code_simp
  have ft: "fetchManifest_tree ?e (manifestPath DEFAULTS) = Inr (schema1Heap, JRef 2)"
    by code_simp
  have ok: "truthy (JRef 6) \<and> typeof (JRef 6) = ''object''"
      "field flameHeap (JRef 6) (ascii ''schema'') = JNum (Fin 2)"
      "field flameHeap (JRef 6) (ascii ''arcs'') = JRef 5"
      "truthy (JRef 5) \<and> typeof (JRef 5) = ''object''"
      "field flameHeap (JRef 5) (ascii ''flame'') = JRef 3"
      "isArray flameHeap (JRef 3)"
    by code_simp+
  from s f ft ok
    pickArcEntries_version_gate [where h = schema1Heap and m = "JRef 2" and a = "ascii ''flame''"
      and e = ?e and opts = DEFAULTS and mountId = "ascii ''chapterList''" and mt = mount0]
    pickArcEntries_version_gate [where h = flameHeap and m = "JRef 6" and a = "ascii ''flame''"
      and e = ?e and opts = DEFAULTS and mountId = "ascii ''chapterList''" and mt = mount0]
  show ?thesis by simp
qed

section \<open>The two comparators\<close>

lemma sortTitle_tree_eq: "sortTitle_tree = sortTitle"
  by (intro ext) (simp add: sortTitle_tree_def sortTitle_def)

lemma defensiveCompare_tree_eq: "defensiveCompare_tree = defensiveCompare"
  unfolding defensiveCompare_tree_def defensiveCompare_def sortTitle_tree_eq ..

text \<open>
  C8. The comparator of src/js/navgen.js (lines 170 to 181) and the comparator of
  src/unnamed/part 000 (lines 359 to 370) return the same result, or throw the same
  error, for every pair of entries; so the two files sort every array to the same
  order, by \<open>sortE\<close> on a list and by \<open>arraySort\<close> in the heap.
\<close>

theorem defensiveCompare_variants_equal:
  "defensiveCompare e h a b = defensiveCompare_tree e h a b
   \<and> sortE (defensiveCompare e h) xs = sortE (defensiveCompare_tree e h) xs
   \<and> arraySort (defensiveCompare e h) h v = arraySort (defensiveCompare_tree e h) h v"
  by (simp add: defensiveCompare_tree_eq)

text \<open>On the two Flame chapters both comparators give 2 - 1 and both sorts swap them.\<close>

theorem defensiveCompare_variants_equal_witness:
  "defensiveCompare (pageOf flameHeap (JRef 6)) flameHeap (JRef 1) (JRef 2) = Inr (Some (Fin 1))
   \<and> defensiveCompare_tree (pageOf flameHeap (JRef 6)) flameHeap (JRef 1) (JRef 2) = Inr (Some (Fin 1))
   \<and> sortE (defensiveCompare (pageOf flameHeap (JRef 6)) flameHeap) [JRef 1, JRef 2] = Inr [JRef 2, JRef 1]
   \<and> sortE (defensiveCompare_tree (pageOf flameHeap (JRef 6)) flameHeap) [JRef 1, JRef 2] = Inr [JRef 2, JRef 1]"
proof -
  have a: "defensiveCompare (pageOf flameHeap (JRef 6)) flameHeap (JRef 1) (JRef 2) = Inr (Some (Fin 1))"
    by code_simp
  have b: "sortE (defensiveCompare (pageOf flameHeap (JRef 6)) flameHeap) [JRef 1, JRef 2] = Inr [JRef 2, JRef 1]"
    by code_simp
  note t = defensiveCompare_variants_equal [of "pageOf flameHeap (JRef 6)" flameHeap "JRef 1" "JRef 2"
      "[JRef 1, JRef 2]" "JRef 3"]
  from t have e1: "defensiveCompare (pageOf flameHeap (JRef 6)) flameHeap (JRef 1) (JRef 2) =
      defensiveCompare_tree (pageOf flameHeap (JRef 6)) flameHeap (JRef 1) (JRef 2)"
    by blast
  from t have e2: "sortE (defensiveCompare (pageOf flameHeap (JRef 6)) flameHeap) [JRef 1, JRef 2] =
      sortE (defensiveCompare_tree (pageOf flameHeap (JRef 6)) flameHeap) [JRef 1, JRef 2]"
    by blast
  show ?thesis by (simp only: e1 [symmetric] e2 [symmetric] a b simp_thms)
qed

section \<open>The manifest is only read\<close>

lemma arraySort_frame:
  assumes "arraySlice h v = (h1, c)" and "arraySort cmp h1 c = (h2, r)"
  shows "take (length h) h2 = h"
proof -
  from assms(1) have h1: "h1 = h @ [Arr (elements h v)]" and c: "c = JRef (length h)"
    by (auto simp: arraySlice_def)
  have cell: "cellAt h1 (length h) = Some (Arr (elements h v))"
    by (simp add: h1 cellAt_def)
  show ?thesis
  proof (cases "sortE cmp (elements h v)")
    case (Inl e)
    with assms(2) cell c have "h2 = h1" by (simp add: arraySort_def)
    then show ?thesis by (simp add: h1)
  next
    case (Inr ys)
    with assms(2) cell c have "h2 = h1[length h := Arr ys]" by (simp add: arraySort_def)
    then show ?thesis by (simp add: h1)
  qed
qed

lemma navTry_frame:
  assumes "fetchManifest e (manifestPath opts) = Inr (h, m)"
  shows "take (length h) (fst (navTry e opts arc)) = h"
proof (cases "pickArcEntries h m arc")
  case (Inl err)
  with assms show ?thesis by (simp add: navTry_def)
next
  case (Inr entries)
  show ?thesis
  proof (cases "\<not> truthy entries \<or> field h entries (ascii ''length'') = JNum (Fin 0)")
    case True
    with assms Inr show ?thesis by (auto simp: navTry_def)
  next
    case False
    obtain h1 c where sl: "arraySlice h entries = (h1, c)" by (cases "arraySlice h entries")
    obtain h2 r where so: "arraySort (defensiveCompare e h1) h1 c = (h2, r)"
      by (cases "arraySort (defensiveCompare e h1) h1 c")
    have "fst (navTry e opts arc) = h2"
      using assms Inr False sl so
      by (simp add: navTry_def split: sum.splits)
    with arraySort_frame [OF sl so] show ?thesis by simp
  qed
qed

lemma navTry_tree_frame:
  assumes "fetchManifest_tree e (manifestPath opts) = Inr (h, m)"
  shows "take (length h) (fst (navTry_tree e opts arc)) = h"
proof (cases "pickArcEntries h m arc")
  case (Inl err)
  with assms show ?thesis by (simp add: navTry_tree_def)
next
  case (Inr entries)
  show ?thesis
  proof (cases "\<not> truthy entries \<or> field h entries (ascii ''length'') = JNum (Fin 0)")
    case True
    with assms Inr show ?thesis by (auto simp: navTry_tree_def)
  next
    case False
    obtain h1 c where sl: "arraySlice h entries = (h1, c)" by (cases "arraySlice h entries")
    obtain h2 r where so: "arraySort (defensiveCompare_tree e h1) h1 c = (h2, r)"
      by (cases "arraySort (defensiveCompare_tree e h1) h1 c")
    have "fst (navTry_tree e opts arc) = h2"
      using assms Inr False sl so
      by (simp add: navTry_tree_def split: sum.splits)
    with arraySort_frame [OF sl so] show ?thesis by simp
  qed
qed

lemma buildNav_heapAfter:
  "\<exists>r. buildNav e opts arc mountId (Some mt) = Inr r \<and> heapAfter r = fst (navTry e opts arc)"
  by (cases "navTry e opts arc") (auto simp: buildNav_def split: sum.splits)

lemma buildNav_tree_heapAfter:
  "\<exists>r. buildNav_tree e opts arc mountId (Some mt) = Inr r \<and> heapAfter r = fst (navTry_tree e opts arc)"
  by (cases "navTry_tree e opts arc") (auto simp: buildNav_tree_def split: sum.splits)

text \<open>
  C3. \<^verbatim>\<open>pickArcEntries\<close> returns a value and no heap: it writes nothing. After
  \<^verbatim>\<open>buildNav\<close> (of either file) on a fetched manifest, every cell of the heap that
  \<^verbatim>\<open>res.json()\<close> returned, so the manifest object, its \<^verbatim>\<open>arcs\<close>, every entries array
  and every entry, is what it was: the only write, the sort in place, goes to the array
  that \<^verbatim>\<open>entries.slice()\<close> allocated behind them.
\<close>

theorem buildNav_leaves_manifest:
  "(fetchManifest e (manifestPath opts) = Inr (h, m) \<longrightarrow>
      (\<exists>r. buildNav e opts arc mountId (Some mt) = Inr r
           \<and> length h \<le> length (heapAfter r)
           \<and> (\<forall>a. a < length h \<longrightarrow> heapAfter r ! a = h ! a)))
   \<and> (fetchManifest_tree e (manifestPath opts) = Inr (h, m) \<longrightarrow>
      (\<exists>r. buildNav_tree e opts arc mountId (Some mt) = Inr r
           \<and> length h \<le> length (heapAfter r)
           \<and> (\<forall>a. a < length h \<longrightarrow> heapAfter r ! a = h ! a)))"
proof (intro conjI impI)
  assume f: "fetchManifest e (manifestPath opts) = Inr (h, m)"
  obtain r where r: "buildNav e opts arc mountId (Some mt) = Inr r"
    and hr: "heapAfter r = fst (navTry e opts arc)"
    using buildNav_heapAfter by blast
  from navTry_frame [OF f] hr have t: "take (length h) (heapAfter r) = h" by simp
  then have "length (take (length h) (heapAfter r)) = length h" by simp
  then have "length h \<le> length (heapAfter r)" by simp
  moreover have "\<forall>a. a < length h \<longrightarrow> heapAfter r ! a = h ! a"
    using t by (metis nth_take)
  ultimately show "\<exists>r. buildNav e opts arc mountId (Some mt) = Inr r
           \<and> length h \<le> length (heapAfter r)
           \<and> (\<forall>a. a < length h \<longrightarrow> heapAfter r ! a = h ! a)"
    using r by blast
next
  assume f: "fetchManifest_tree e (manifestPath opts) = Inr (h, m)"
  obtain r where r: "buildNav_tree e opts arc mountId (Some mt) = Inr r"
    and hr: "heapAfter r = fst (navTry_tree e opts arc)"
    using buildNav_tree_heapAfter by blast
  from navTry_tree_frame [OF f] hr have t: "take (length h) (heapAfter r) = h" by simp
  then have "length (take (length h) (heapAfter r)) = length h" by simp
  then have "length h \<le> length (heapAfter r)" by simp
  moreover have "\<forall>a. a < length h \<longrightarrow> heapAfter r ! a = h ! a"
    using t by (metis nth_take)
  ultimately show "\<exists>r. buildNav_tree e opts arc mountId (Some mt) = Inr r
           \<and> length h \<le> length (heapAfter r)
           \<and> (\<forall>a. a < length h \<longrightarrow> heapAfter r ! a = h ! a)"
    using r by blast
qed



text \<open>
  On the sample manifest both files leave the Flame array at address 3 as the manifest
  lists it (2 before 1), although the rows are rendered as 1, 2.
\<close>

theorem buildNav_leaves_manifest_witness:
  "(\<exists>r. buildNav (pageOf flameHeap (JRef 6)) DEFAULTS
          (ascii ''flame'') (ascii ''chapterList'') (Some mount0) = Inr r
        \<and> length flameHeap \<le> length (heapAfter r)
        \<and> heapAfter r ! 3 = Arr [JRef 1, JRef 2])
   \<and> (\<exists>r. buildNav_tree (pageOf flameHeap (JRef 6)) DEFAULTS
          (ascii ''flame'') (ascii ''chapterList'') (Some mount0) = Inr r
        \<and> length flameHeap \<le> length (heapAfter r)
        \<and> heapAfter r ! 3 = Arr [JRef 1, JRef 2])"
proof -
  let ?e = "pageOf flameHeap (JRef 6)"
  have f: "fetchManifest ?e (manifestPath DEFAULTS) = Inr (flameHeap, JRef 6)"
    by code_simp
  have ft: "fetchManifest_tree ?e (manifestPath DEFAULTS) = Inr (flameHeap, JRef 6)"
    by code_simp
  have l: "3 < length flameHeap" and c: "flameHeap ! 3 = Arr [JRef 1, JRef 2]"
    by (simp_all add: flameHeap_def)
  note t = buildNav_leaves_manifest [where e = ?e and opts = DEFAULTS and h = flameHeap
      and m = "JRef 6" and arc = "ascii ''flame''" and mountId = "ascii ''chapterList''" and mt = mount0]
  from t f l c have
    "\<exists>r. buildNav ?e DEFAULTS (ascii ''flame'') (ascii ''chapterList'') (Some mount0) = Inr r
        \<and> length flameHeap \<le> length (heapAfter r)
        \<and> heapAfter r ! 3 = Arr [JRef 1, JRef 2]"
    by metis
  moreover from t ft l c have
    "\<exists>r. buildNav_tree ?e DEFAULTS (ascii ''flame'') (ascii ''chapterList'') (Some mount0) = Inr r
        \<and> length flameHeap \<le> length (heapAfter r)
        \<and> heapAfter r ! 3 = Arr [JRef 1, JRef 2]"
    by metis
  ultimately show ?thesis by (rule conjI)
qed

section \<open>buildNav settles normally\<close>

lemma bindE_eq_Inr: "bindE m f = Inr y \<longleftrightarrow> (\<exists>x. m = Inr x \<and> f x = Inr y)"
  by (cases m) simp_all

lemma renderList_class: "renderList e opts h arc v = Inr x \<Longrightarrow> className x = ''chapter-list''"
  by (auto simp: renderList_def bindE_eq_Inr className_def)

lemma renderList_tree_class:
  "renderList_tree e opts h arc v = Inr x \<Longrightarrow> className x = ''chapter-list''"
  by (auto simp: renderList_tree_def bindE_eq_Inr className_def)

lemma renderTree_class: "renderTree e opts h arc t = Inr x \<Longrightarrow> className x = ''nav-tree''"
  by (auto simp: renderTree_def bindE_eq_Inr className_def Let_def)

lemma renderArc_class:
  "renderArc e opts h arc v = Inr x \<Longrightarrow> className x = ''chapter-list'' \<or> className x = ''nav-tree''"
  by (auto simp: renderArc_def bindE_eq_Inr renderTree_class renderList_tree_class split: if_splits)

lemma el_class [simp]: "className (el tag cls t) = cls"
  by (simp add: el_def className_def)

lemma navTry_kids:
  assumes "navTry e opts arc = (h, Inr kids)"
  shows "\<exists>x. kids = [x] \<and> className x \<in> {''nav-error'', ''nav-empty'', ''chapter-list''}"
proof (cases "fetchManifest e (manifestPath opts)")
  case (Inl err)
  with assms show ?thesis by (simp add: navTry_def)
next
  case (Inr hm)
  obtain h0 m where hm: "hm = (h0, m)" by (cases hm)
  show ?thesis
  proof (cases "pickArcEntries h0 m arc")
    case (Inl err)
    with assms Inr hm show ?thesis by (simp add: navTry_def)
  next
    case ents: (Inr entries)
    show ?thesis
    proof (cases "truthy entries")
      case False
      with assms Inr hm ents show ?thesis by (auto simp: navTry_def formatMismatch_def)
    next
      case t: True
      show ?thesis
      proof (cases "field h0 entries (ascii ''length'') = JNum (Fin 0)")
        case True
        with assms Inr hm ents t show ?thesis by (auto simp: navTry_def)
      next
        case False
        obtain h1 c where sl: "arraySlice h0 entries = (h1, c)" by (cases "arraySlice h0 entries")
        obtain h2 r where so: "arraySort (defensiveCompare e h1) h1 c = (h2, r)"
          by (cases "arraySort (defensiveCompare e h1) h1 c")
        from assms Inr hm ents t False sl so
        obtain srt x where "renderList e opts h2 arc srt = Inr x" and "kids = [x]"
          by (auto simp: navTry_def split: sum.splits)
        then show ?thesis using renderList_class by auto
      qed
    qed
  qed
qed

lemma navTry_tree_kids:
  assumes "navTry_tree e opts arc = (h, Inr kids)"
  shows "\<exists>x. kids = [x]
     \<and> className x \<in> {''nav-error'', ''nav-empty'', ''chapter-list'', ''nav-tree''}"
proof (cases "fetchManifest_tree e (manifestPath opts)")
  case (Inl err)
  with assms show ?thesis by (simp add: navTry_tree_def)
next
  case (Inr hm)
  obtain h0 m where hm: "hm = (h0, m)" by (cases hm)
  show ?thesis
  proof (cases "pickArcEntries h0 m arc")
    case (Inl err)
    with assms Inr hm show ?thesis by (simp add: navTry_tree_def)
  next
    case ents: (Inr entries)
    show ?thesis
    proof (cases "truthy entries")
      case False
      with assms Inr hm ents show ?thesis by (auto simp: navTry_tree_def formatMismatch_def)
    next
      case t: True
      show ?thesis
      proof (cases "field h0 entries (ascii ''length'') = JNum (Fin 0)")
        case True
        with assms Inr hm ents t show ?thesis by (auto simp: navTry_tree_def)
      next
        case False
        obtain h1 c where sl: "arraySlice h0 entries = (h1, c)" by (cases "arraySlice h0 entries")
        obtain h2 r where so:
          "arraySort (defensiveCompare_tree e h1) h1 c = (h2, r)"
          by (cases "arraySort (defensiveCompare_tree e h1) h1 c")
        from assms Inr hm ents t False sl so
        obtain srt x where "renderArc e opts h2 arc srt = Inr x" and "kids = [x]"
          by (auto simp: navTry_tree_def split: sum.splits)
        then show ?thesis using renderArc_class by auto
      qed
    qed
  qed
qed

lemma loadFailed_class [simp]: "className (loadFailed err) = ''nav-error''"
  by (simp add: loadFailed_def Let_def)

text \<open>
  C9. Whatever the platform does (so for every outcome of the fetch: a failed
  request, a status outside 200 to 299, a body that is not JSON, any JSON value as the
  manifest), \<^verbatim>\<open>buildNav\<close> of either file settles normally on a page with the mount
  element and leaves it with exactly one child: an error element, the empty-state
  element or the rendered list (or, in part 000, tree). Without a mount element it
  settles normally as well.
\<close>

theorem buildNav_never_throws:
  "(\<exists>r x. buildNav e opts arc mountId (Some mt) = Inr r
        \<and> mountChildren r = Some [x]
        \<and> className x \<in> {''nav-error'', ''nav-empty'', ''chapter-list''})
   \<and> (\<exists>r x. buildNav_tree e opts arc mountId (Some mt) = Inr r
        \<and> mountChildren r = Some [x]
        \<and> className x \<in> {''nav-error'', ''nav-empty'', ''chapter-list'', ''nav-tree''})
   \<and> (\<exists>r. buildNav e opts arc mountId None = Inr r \<and> mountChildren r = None)
   \<and> (\<exists>r. buildNav_tree e opts arc mountId None = Inr r \<and> mountChildren r = None)"
proof (intro conjI)
  show "\<exists>r x. buildNav e opts arc mountId (Some mt) = Inr r
        \<and> mountChildren r = Some [x]
        \<and> className x \<in> {''nav-error'', ''nav-empty'', ''chapter-list''}"
  proof (cases "navTry e opts arc")
    case (Pair h res)
    show ?thesis
    proof (cases res)
      case (Inl err)
      with Pair show ?thesis by (simp add: buildNav_def)
    next
      case (Inr kids)
      with Pair navTry_kids [of e opts arc h kids] show ?thesis
        by (auto simp: buildNav_def)
    qed
  qed
  show "\<exists>r x. buildNav_tree e opts arc mountId (Some mt) = Inr r
        \<and> mountChildren r = Some [x]
        \<and> className x \<in> {''nav-error'', ''nav-empty'', ''chapter-list'', ''nav-tree''}"
  proof (cases "navTry_tree e opts arc")
    case (Pair h res)
    show ?thesis
    proof (cases res)
      case (Inl err)
      with Pair show ?thesis by (simp add: buildNav_tree_def)
    next
      case (Inr kids)
      with Pair navTry_tree_kids [of e opts arc h kids] show ?thesis
        by (auto simp: buildNav_tree_def)
    qed
  qed
  show "\<exists>r. buildNav e opts arc mountId None = Inr r \<and> mountChildren r = None"
    by (simp add: buildNav_def)
  show "\<exists>r. buildNav_tree e opts arc mountId None = Inr r \<and> mountChildren r = None"
    by (simp add: buildNav_tree_def)
qed


text \<open>
  A failed request, a 404, a body that is not JSON and an arc of \<^verbatim>\<open>null\<close> entries give
  the error element; an empty arc gives the empty-state element; the Flame arc the list.
\<close>

theorem buildNav_never_throws_witness:
  "(\<exists>r x. buildNav (sampleEnv (NetworkFailure (JsError (ascii ''TypeError'') (ascii ''Failed to fetch''))))
            DEFAULTS (ascii ''flame'') (ascii ''chapterList'') (Some mount0) = Inr r
          \<and> mountChildren r = Some [x]
          \<and> className x \<in> {''nav-error'', ''nav-empty'', ''chapter-list''})
   \<and> map className (mountOf (buildNav
          (sampleEnv (NetworkFailure (JsError (ascii ''TypeError'') (ascii ''Failed to fetch''))))
          DEFAULTS (ascii ''flame'') (ascii ''chapterList'') (Some mount0))) = [''nav-error'']
   \<and> map className (mountOf (buildNav_tree
          (sampleEnv (Response 404 (ascii ''Not Found'') (BadJson (JsError (ascii ''SyntaxError'') (ascii ''Unexpected token'')))))
          DEFAULTS (ascii ''flame'') (ascii ''chapterList'') (Some mount0))) = [''nav-error'']
   \<and> map className (mountOf (buildNav
          (sampleEnv (Response 200 (ascii ''OK'') (BadJson (JsError (ascii ''SyntaxError'') (ascii ''Unexpected token'')))))
          DEFAULTS (ascii ''flame'') (ascii ''chapterList'') (Some mount0))) = [''nav-error'']
   \<and> map className (mountOf (buildNav_tree
          (pageOf nullsHeap (JRef 2))
          DEFAULTS (ascii ''flame'') (ascii ''chapterList'') (Some mount0))) = [''nav-error'']
   \<and> map className (mountOf (buildNav
          (pageOf flameHeap (JRef 6))
          DEFAULTS (ascii ''order'') (ascii ''chapterList'') (Some mount0))) = [''nav-empty'']
   \<and> map className (mountOf (buildNav
          (pageOf flameHeap (JRef 6))
          DEFAULTS (ascii ''flame'') (ascii ''chapterList'') (Some mount0))) = [''chapter-list'']"
proof -
  have ev:
    "map className (mountOf (buildNav
          (sampleEnv (NetworkFailure (JsError (ascii ''TypeError'') (ascii ''Failed to fetch''))))
          DEFAULTS (ascii ''flame'') (ascii ''chapterList'') (Some mount0))) = [''nav-error'']"
    "map className (mountOf (buildNav_tree
          (sampleEnv (Response 404 (ascii ''Not Found'') (BadJson (JsError (ascii ''SyntaxError'') (ascii ''Unexpected token'')))))
          DEFAULTS (ascii ''flame'') (ascii ''chapterList'') (Some mount0))) = [''nav-error'']"
    "map className (mountOf (buildNav
          (sampleEnv (Response 200 (ascii ''OK'') (BadJson (JsError (ascii ''SyntaxError'') (ascii ''Unexpected token'')))))
          DEFAULTS (ascii ''flame'') (ascii ''chapterList'') (Some mount0))) = [''nav-error'']"
    "map className (mountOf (buildNav_tree
          (pageOf nullsHeap (JRef 2))
          DEFAULTS (ascii ''flame'') (ascii ''chapterList'') (Some mount0))) = [''nav-error'']"
    "map className (mountOf (buildNav
          (pageOf flameHeap (JRef 6))
          DEFAULTS (ascii ''order'') (ascii ''chapterList'') (Some mount0))) = [''nav-empty'']"
    "map className (mountOf (buildNav
          (pageOf flameHeap (JRef 6))
          DEFAULTS (ascii ''flame'') (ascii ''chapterList'') (Some mount0))) = [''chapter-list'']"
    by code_simp+
  from buildNav_never_throws [where e = "sampleEnv (NetworkFailure (JsError (ascii ''TypeError'') (ascii ''Failed to fetch'')))"
      and opts = DEFAULTS and arc = "ascii ''flame''" and mountId = "ascii ''chapterList''" and mt = mount0]
  have th: "\<exists>r x. buildNav (sampleEnv (NetworkFailure (JsError (ascii ''TypeError'') (ascii ''Failed to fetch''))))
            DEFAULTS (ascii ''flame'') (ascii ''chapterList'') (Some mount0) = Inr r
          \<and> mountChildren r = Some [x]
          \<and> className x \<in> {''nav-error'', ''nav-empty'', ''chapter-list''}"
    by (rule conjunct1)
  from th ev show ?thesis by (intro conjI)
qed


section \<open>The order of the rows\<close>

lemma ascii_eq_iff [simp]: "ascii s = ascii t \<longleftrightarrow> s = t"
  by (simp add: ascii_def inj_map_eq_map inj_on_def)

lemma cellAt_append: "a < length h \<Longrightarrow> cellAt (h @ t) a = cellAt h a"
  by (simp add: cellAt_def nth_append)

lemma getProp_append: "a < length h \<Longrightarrow> getProp (h @ t) (JRef a) k = getProp h (JRef a) k"
  by (simp add: getProp_def cellAt_append)

lemma field_append: "a < length h \<Longrightarrow> field (h @ t) (JRef a) k = field h (JRef a) k"
  by (simp add: field_def getProp_append)

lemma field_JNum_ref:
  assumes "field h x k = JNum n" and "k \<noteq> ascii ''length''"
  shows "\<exists>a. x = JRef a \<and> a < length h"
proof (cases x)
  case (JRef a)
  with assms show ?thesis
    by (cases "a < length h") (auto simp: field_def getProp_def cellAt_def)
next
  case (JStr s)
  with assms show ?thesis
    by (auto simp: field_def getProp_def split: option.splits if_splits)
qed (use assms in \<open>auto simp: field_def getProp_def\<close>)

lemma index_not_length: "ascii ''index'' \<noteq> ascii ''length''"
  by simp

lemma gtZero_numSub: "gtZero (numSub a b) \<longleftrightarrow> numKey b < numKey a"
  by (cases a; cases b) (simp_all add: gtZero_def numSub_def numKey_def)

lemma compare_numeric:
  assumes "field h a (ascii ''index'') = JNum x" and "field h b (ascii ''index'') = JNum y"
  shows "defensiveCompare e h a b = Inr (numSub x y)"
proof -
  from assms have "a \<noteq> JNull" "a \<noteq> JUndefined" "b \<noteq> JNull" "b \<noteq> JUndefined"
    by (auto simp: field_def getProp_def)
  then have "getProp h a (ascii ''index'') = Inr (JNum x)"
      "getProp h b (ascii ''index'') = Inr (JNum y)"
    using assms by (simp_all add: getProp_field)
  then show ?thesis
    by (simp add: defensiveCompare_def numberOrNull_def typeof_def)
qed

lemma entryIndex_numeric: "field h a (ascii ''index'') = JNum x \<Longrightarrow> entryIndex h a = x"
  by (simp add: entryIndex_def numberOrNull_def typeof_def)

lemma insertE_numeric:
  assumes "\<forall>y \<in> set (x # ys). \<exists>n. field h y (ascii ''index'') = JNum n"
  shows "insertE (defensiveCompare e h) x ys = Inr (insort_key (indexKey h) x ys)"
  using assms
proof (induction ys)
  case Nil
  then show ?case by simp
next
  case (Cons y ys)
  then obtain n k where n: "field h x (ascii ''index'') = JNum n"
    and k: "field h y (ascii ''index'') = JNum k"
    by auto
  have c: "defensiveCompare e h x y = Inr (numSub n k)" using n k by (rule compare_numeric)
  have ih: "insertE (defensiveCompare e h) x ys = Inr (insort_key (indexKey h) x ys)"
    using Cons by simp
  have kx: "indexKey h x = numKey n" by (simp add: indexKey_def entryIndex_numeric [OF n])
  have ky: "indexKey h y = numKey k" by (simp add: indexKey_def entryIndex_numeric [OF k])
  show ?case
    by (simp add: c ih gtZero_numSub kx ky not_less)
qed

lemma sortE_numeric:
  assumes "\<forall>y \<in> set xs. \<exists>n. field h y (ascii ''index'') = JNum n"
  shows "sortE (defensiveCompare e h) xs = Inr (sort_key (indexKey h) xs)"
  using assms
proof (induction xs)
  case Nil
  then show ?case by simp
next
  case (Cons x xs)
  then have ih: "sortE (defensiveCompare e h) xs = Inr (sort_key (indexKey h) xs)"
    by simp
  have "\<forall>y \<in> set (x # sort_key (indexKey h) xs). \<exists>n. field h y (ascii ''index'') = JNum n"
    using Cons.prems by simp
  then have "insertE (defensiveCompare e h) x (sort_key (indexKey h) xs) =
      Inr (insort_key (indexKey h) x (sort_key (indexKey h) xs))"
    by (rule insertE_numeric)
  with ih show ?case by simp
qed

lemma mapE_Inr_iff: "mapE f xs = Inr ys \<longleftrightarrow> list_all2 (\<lambda>x y. f x = Inr y) xs ys"
proof (induction xs arbitrary: ys)
  case Nil
  then show ?case by auto
next
  case (Cons x xs)
  show ?case
  proof (cases "f x")
    case (Inl e)
    then show ?thesis by (auto simp: list_all2_Cons1)
  next
    case fx: (Inr y)
    show ?thesis
    proof (cases "mapE f xs")
      case (Inl e)
      with fx Cons.IH show ?thesis by (auto simp: list_all2_Cons1)
    next
      case (Inr zs)
      with fx Cons.IH show ?thesis by (auto simp: list_all2_Cons1)
    qed
  qed
qed

lemma mapE_Inl_iff: "(\<exists>err. mapE f xs = Inl err) \<longleftrightarrow> (\<exists>x \<in> set xs. \<exists>err. f x = Inl err)"
proof (induction xs)
  case Nil
  then show ?case by simp
next
  case (Cons x xs)
  show ?case
  proof (cases "f x")
    case (Inl e)
    then show ?thesis by auto
  next
    case fx: (Inr y)
    show ?thesis
    proof (cases "mapE f xs")
      case (Inl e)
      with fx Cons.IH show ?thesis by auto
    next
      case (Inr zs)
      with fx Cons.IH show ?thesis by auto
    qed
  qed
qed

lemma insort_key_cong_set:
  assumes "\<forall>y \<in> set (x # ys). f y = g y"
  shows "insort_key f x ys = insort_key g x ys"
  using assms by (induction ys) auto

lemma sort_key_cong_set:
  assumes "\<forall>y \<in> set xs. f y = g y"
  shows "sort_key f xs = sort_key g xs"
  using assms
proof (induction xs)
  case Nil
  then show ?case by simp
next
  case (Cons x xs)
  then have ih: "sort_key f xs = sort_key g xs" by simp
  have "insort_key f x (sort_key g xs) = insort_key g x (sort_key g xs)"
    using Cons.prems by (intro insort_key_cong_set) simp
  with ih show ?case by simp
qed

lemma elements_nonempty:
  assumes "elements h v \<noteq> []"
  shows "\<exists>a. v = JRef a \<and> a < length h \<and> h ! a = Arr (elements h v)"
proof (cases v)
  case (JRef a)
  with assms show ?thesis
    by (cases "a < length h"; cases "h ! a") (auto simp: elements_def cellAt_def)
qed (use assms in \<open>auto simp: elements_def\<close>)

lemma sorted_copy:
  assumes ne: "elements h ents \<noteq> []"
    and num: "\<forall>x \<in> set (elements h ents). \<exists>n. field h x (ascii ''index'') = JNum n"
  defines "ys \<equiv> sort_key (indexKey h) (elements h ents)"
  shows "truthy ents" and "field h ents (ascii ''length'') \<noteq> JNum (Fin 0)"
    and "arraySlice h ents = (h @ [Arr (elements h ents)], JRef (length h))"
    and "arraySort (defensiveCompare e (h @ [Arr (elements h ents)]))
           (h @ [Arr (elements h ents)]) (JRef (length h)) =
         (h @ [Arr ys], Inr (JRef (length h)))"
    and "elements (h @ [Arr ys]) (JRef (length h)) = ys"
proof -
  let ?xs = "elements h ents"
  let ?h1 = "h @ [Arr ?xs]"
  from elements_nonempty [OF ne] obtain a where
    a: "ents = JRef a" "a < length h" "h ! a = Arr ?xs" by blast
  show "truthy ents" using a by (simp add: truthy_def)
  show "field h ents (ascii ''length'') \<noteq> JNum (Fin 0)"
    using a ne by (simp add: field_def getProp_def cellAt_def)
  show "arraySlice h ents = (?h1, JRef (length h))" by (simp add: arraySlice_def)
  have refs: "\<forall>x \<in> set ?xs. \<exists>b. x = JRef b \<and> b < length h"
    using num field_JNum_ref [OF _ index_not_length] by blast
  have num1: "\<forall>x \<in> set ?xs. \<exists>n. field ?h1 x (ascii ''index'') = JNum n"
    using num refs by (metis field_append)
  have idx: "\<forall>x \<in> set ?xs. indexKey ?h1 x = indexKey h x"
    using refs by (auto simp: indexKey_def entryIndex_def field_append)
  have "sortE (defensiveCompare e ?h1) ?xs = Inr (sort_key (indexKey ?h1) ?xs)"
    using num1 by (rule sortE_numeric)
  also have "sort_key (indexKey ?h1) ?xs = ys"
    unfolding ys_def using idx by (rule sort_key_cong_set)
  finally have s: "sortE (defensiveCompare e ?h1) ?xs = Inr ys" .
  have "cellAt ?h1 (length h) = Some (Arr ?xs)" by (simp add: cellAt_def)
  then show "arraySort (defensiveCompare e ?h1) ?h1 (JRef (length h)) =
         (h @ [Arr ys], Inr (JRef (length h)))"
    using s by (simp add: arraySort_def)
  show "elements (h @ [Arr ys]) (JRef (length h)) = ys"
    by (simp add: elements_def cellAt_def)
qed

lemma strict_of_distinct:
  fixes f :: "'a \<Rightarrow> 'b :: linorder"
  assumes "distinct (map f xs)"
  shows "sorted_wrt (<) (map f (sort_key f xs))"
proof -
  have "mset (map f (sort_key f xs)) = mset (map f xs)" by simp
  then have "distinct (map f (sort_key f xs))"
    using assms by (metis mset_eq_imp_distinct_iff)
  then show ?thesis by (simp add: strict_sorted_iff)
qed

lemma pagePath: "\<exists>cp. getCurrentPathnameNormalized e = Inr cp"
  by (simp add: getCurrentPathnameNormalized_def normalizePath_def toStr.simps primToStr_def)

lemma navTry_sorted:
  assumes f: "fetchManifest e (manifestPath opts) = Inr (h, m)"
    and p: "pickArcEntries h m arc = Inr ents"
    and ne: "elements h ents \<noteq> []"
    and num: "\<forall>x \<in> set (elements h ents). \<exists>n. field h x (ascii ''index'') = JNum n"
    and cp: "getCurrentPathnameNormalized e = Inr cp"
  defines "ys \<equiv> sort_key (indexKey h) (elements h ents)"
  shows "navTry e opts arc =
     (h @ [Arr ys],
      case mapE (renderRow e opts (h @ [Arr ys]) cp) ys of
        Inl err \<Rightarrow> Inl err
      | Inr rows \<Rightarrow> Inr [Element ''div'' ''chapter-list'' [] rows])"
proof -
  note sc = sorted_copy [OF ne num]
  have rl: "renderList e opts (h @ [Arr ys]) arc (JRef (length h)) =
      bindE (mapE (renderRow e opts (h @ [Arr ys]) cp) ys)
        (\<lambda>rows. Inr (Element ''div'' ''chapter-list'' [] rows))"
    using sc(5) by (simp add: renderList_def cp ys_def)
  show ?thesis
    using f p sc(1) sc(2) sc(3) sc(4) [of e]
    by (simp add: navTry_def rl ys_def [symmetric] bindE_def split: sum.splits)
qed

lemma navTry_tree_sorted:
  assumes f: "fetchManifest_tree e (manifestPath opts) = Inr (h, m)"
    and p: "pickArcEntries h m arc = Inr ents"
    and ne: "elements h ents \<noteq> []"
    and num: "\<forall>x \<in> set (elements h ents). \<exists>n. field h x (ascii ''index'') = JNum n"
    and cp: "getCurrentPathnameNormalized e = Inr cp"
    and flat: "arc \<noteq> ascii ''lore''" "arc \<noteq> ascii ''characters''"
  defines "ys \<equiv> sort_key (indexKey h) (elements h ents)"
  shows "navTry_tree e opts arc =
     (h @ [Arr ys],
      case mapE (makeRow e opts (h @ [Arr ys]) cp) ys of
        Inl err \<Rightarrow> Inl err
      | Inr rows \<Rightarrow> Inr [Element ''div'' ''chapter-list'' [] rows])"
proof -
  note sc = sorted_copy [OF ne num]
  have rl: "renderArc e opts (h @ [Arr ys]) arc (JRef (length h)) =
      bindE (mapE (makeRow e opts (h @ [Arr ys]) cp) ys)
        (\<lambda>rows. Inr (Element ''div'' ''chapter-list'' [] rows))"
    using sc(5) flat by (simp add: renderArc_def renderList_tree_def cp ys_def)
  show ?thesis
    using f p sc(1) sc(2) sc(3) sc(4) [of e]
    by (simp add: navTry_tree_def defensiveCompare_tree_eq rl ys_def [symmetric] bindE_def
        split: sum.splits)
qed

text \<open>
  C2, amended. For every non-empty entries array in which every entry has a numeric
  \<^verbatim>\<open>index\<close>, the defensive sort yields the stable sort by index: the entries in
  ascending order of index (\<^verbatim>\<open>-Infinity\<close> first, \<^verbatim>\<open>Infinity\<close> last) where entries of equal
  index keep the order of the manifest, so strictly ascending when the indexes are
  pairwise distinct. src/js/navgen.js, for every arc, and part 000, for every arc other
  than \<^verbatim>\<open>lore\<close> and \<^verbatim>\<open>characters\<close>, then show the list with one row per entry in that
  order when every row can be made, and the error element in place of the list when
  the making of some row throws (as \<^verbatim>\<open>String\<close> does on an object that has a property
  \<^verbatim>\<open>toString\<close>, and in part 000 a link that does not resolve).
\<close>

theorem defensive_sort_by_index:
  fixes h :: heap and ents :: jsval
  defines "xs \<equiv> elements h ents"
  defines "ys \<equiv> sort_key (indexKey h) (elements h ents)"
  defines "h2 \<equiv> h @ [Arr (sort_key (indexKey h) (elements h ents))]"
  assumes p: "pickArcEntries h m arc = Inr ents"
    and ne: "elements h ents \<noteq> []"
    and num: "\<forall>x \<in> set (elements h ents). \<exists>n. field h x (ascii ''index'') = JNum n"
    and cp: "getCurrentPathnameNormalized e = Inr cp"
  shows "sorted (map (indexKey h) ys) \<and> mset ys = mset xs
       \<and> (\<forall>k. filter (\<lambda>x. indexKey h x = k) ys = filter (\<lambda>x. indexKey h x = k) xs)
       \<and> (distinct (map (indexKey h) xs) \<longrightarrow> sorted_wrt (<) (map (indexKey h) ys))
       \<and> (fetchManifest e (manifestPath opts) = Inr (h, m) \<longrightarrow>
            (\<forall>rows. list_all2 (\<lambda>x row. renderRow e opts h2 cp x = Inr row) ys rows \<longrightarrow>
                   buildNav e opts arc mountId (Some mt) =
                     Inr \<lparr>mountChildren = Some [Element ''div'' ''chapter-list'' [] rows],
                          heapAfter = h2, consoleErrors = []\<rparr>)
          \<and> ((\<exists>x \<in> set ys. \<exists>err. renderRow e opts h2 cp x = Inl err) \<longrightarrow>
                (\<exists>err. buildNav e opts arc mountId (Some mt) =
                     Inr \<lparr>mountChildren = Some [loadFailed err], heapAfter = h2,
                          consoleErrors = [ascii ''[navgen] Error: '' @ errToString err]\<rparr>)))
       \<and> (fetchManifest_tree e (manifestPath opts) = Inr (h, m)
            \<and> arc \<noteq> ascii ''lore'' \<and> arc \<noteq> ascii ''characters'' \<longrightarrow>
            (\<forall>rows. list_all2 (\<lambda>x row. makeRow e opts h2 cp x = Inr row) ys rows \<longrightarrow>
                   buildNav_tree e opts arc mountId (Some mt) =
                     Inr \<lparr>mountChildren = Some [Element ''div'' ''chapter-list'' [] rows],
                          heapAfter = h2, consoleErrors = []\<rparr>)
          \<and> ((\<exists>x \<in> set ys. \<exists>err. makeRow e opts h2 cp x = Inl err) \<longrightarrow>
                (\<exists>err. buildNav_tree e opts arc mountId (Some mt) =
                     Inr \<lparr>mountChildren = Some [loadFailed err], heapAfter = h2,
                          consoleErrors = [ascii ''[navgen] Error: '' @ errToString err]\<rparr>)))"
proof (intro conjI impI allI)
  show "sorted (map (indexKey h) ys)" by (simp add: ys_def)
  show "mset ys = mset xs" by (simp add: ys_def xs_def)
  show "\<And>k. filter (\<lambda>x. indexKey h x = k) ys = filter (\<lambda>x. indexKey h x = k) xs"
    by (simp add: ys_def xs_def sort_key_stable)
  {
    assume "distinct (map (indexKey h) xs)"
    then show "sorted_wrt (<) (map (indexKey h) ys)"
      unfolding xs_def ys_def by (rule strict_of_distinct)
  }
  {
    fix rows
    assume f: "fetchManifest e (manifestPath opts) = Inr (h, m)"
      and r: "list_all2 (\<lambda>x row. renderRow e opts h2 cp x = Inr row) ys rows"
    from r have "mapE (renderRow e opts h2 cp) ys = Inr rows" by (simp add: mapE_Inr_iff)
    then have "navTry e opts arc = (h2, Inr [Element ''div'' ''chapter-list'' [] rows])"
      using navTry_sorted [OF f p ne num cp] by (simp add: h2_def ys_def)
    then show "buildNav e opts arc mountId (Some mt) =
        Inr \<lparr>mountChildren = Some [Element ''div'' ''chapter-list'' [] rows],
             heapAfter = h2, consoleErrors = []\<rparr>"
      by (simp add: buildNav_def)
  }
  {
    assume f: "fetchManifest e (manifestPath opts) = Inr (h, m)"
      and r: "\<exists>x \<in> set ys. \<exists>err. renderRow e opts h2 cp x = Inl err"
    from r obtain err where "mapE (renderRow e opts h2 cp) ys = Inl err"
      using mapE_Inl_iff [of "renderRow e opts h2 cp" ys] by blast
    then have "navTry e opts arc = (h2, Inl err)"
      using navTry_sorted [OF f p ne num cp] by (simp add: h2_def ys_def)
    then have "buildNav e opts arc mountId (Some mt) =
        Inr \<lparr>mountChildren = Some [loadFailed err], heapAfter = h2,
             consoleErrors = [ascii ''[navgen] Error: '' @ errToString err]\<rparr>"
      by (simp add: buildNav_def)
    then show "\<exists>err. buildNav e opts arc mountId (Some mt) =
        Inr \<lparr>mountChildren = Some [loadFailed err], heapAfter = h2,
             consoleErrors = [ascii ''[navgen] Error: '' @ errToString err]\<rparr>"
      by blast
  }
  {
    fix rows
    assume a: "fetchManifest_tree e (manifestPath opts) = Inr (h, m)
        \<and> arc \<noteq> ascii ''lore'' \<and> arc \<noteq> ascii ''characters''"
      and r: "list_all2 (\<lambda>x row. makeRow e opts h2 cp x = Inr row) ys rows"
    from r have "mapE (makeRow e opts h2 cp) ys = Inr rows" by (simp add: mapE_Inr_iff)
    then have "navTry_tree e opts arc = (h2, Inr [Element ''div'' ''chapter-list'' [] rows])"
      using navTry_tree_sorted [OF _ p ne num cp, of opts] a by (simp add: h2_def ys_def)
    then show "buildNav_tree e opts arc mountId (Some mt) =
        Inr \<lparr>mountChildren = Some [Element ''div'' ''chapter-list'' [] rows],
             heapAfter = h2, consoleErrors = []\<rparr>"
      by (simp add: buildNav_tree_def)
  }
  {
    assume a: "fetchManifest_tree e (manifestPath opts) = Inr (h, m)
        \<and> arc \<noteq> ascii ''lore'' \<and> arc \<noteq> ascii ''characters''"
      and r: "\<exists>x \<in> set ys. \<exists>err. makeRow e opts h2 cp x = Inl err"
    from r obtain err where "mapE (makeRow e opts h2 cp) ys = Inl err"
      using mapE_Inl_iff [of "makeRow e opts h2 cp" ys] by blast
    then have "navTry_tree e opts arc = (h2, Inl err)"
      using navTry_tree_sorted [OF _ p ne num cp, of opts] a by (simp add: h2_def ys_def)
    then have "buildNav_tree e opts arc mountId (Some mt) =
        Inr \<lparr>mountChildren = Some [loadFailed err], heapAfter = h2,
             consoleErrors = [ascii ''[navgen] Error: '' @ errToString err]\<rparr>"
      by (simp add: buildNav_tree_def)
    then show "\<exists>err. buildNav_tree e opts arc mountId (Some mt) =
        Inr \<lparr>mountChildren = Some [loadFailed err], heapAfter = h2,
             consoleErrors = [ascii ''[navgen] Error: '' @ errToString err]\<rparr>"
      by blast
  }
qed

text \<open>
  C2 as stated fails twice. Two chapters of index 1 are rendered one after the other:
  the order is not strictly ascending. And part 000 renders a Lore arc as a tree whose
  pages are sorted by title: the entry of index 2 comes before the entry of index 1.
\<close>

theorem rows_not_strictly_ascending:
  "shownTitles (navOn dupHeap (JRef 4) ''flame'') = [ascii ''01 FIRST'', ascii ''01 SECOND'']
   \<and> field dupHeap (JRef 0) (ascii ''title'') = strv ''01 FIRST''
   \<and> field dupHeap (JRef 1) (ascii ''title'') = strv ''01 SECOND''
   \<and> entryIndex dupHeap (JRef 0) = Fin 1 \<and> entryIndex dupHeap (JRef 1) = Fin 1
   \<and> \<not> sorted_wrt (<) (map (indexKey dupHeap) [JRef 0, JRef 1])
   \<and> shownTitles (navOn_tree loreIndexHeap (JRef 4) ''lore'') = [ascii ''Alpha'', ascii ''Zeta'']
   \<and> field loreIndexHeap (JRef 1) (ascii ''title'') = strv ''Alpha''
   \<and> field loreIndexHeap (JRef 0) (ascii ''title'') = strv ''Zeta''
   \<and> entryIndex loreIndexHeap (JRef 1) = Fin 2 \<and> entryIndex loreIndexHeap (JRef 0) = Fin 1
   \<and> \<not> sorted_wrt (<) (map (indexKey loreIndexHeap) [JRef 1, JRef 0])"
  by code_simp

text \<open>
  The two Flame chapters, listed as 2, 1 in the manifest, are rendered as 1, 2; and
  when the \<^verbatim>\<open>output\<close> of a chapter is an object with a property \<^verbatim>\<open>toString\<close>, both
  files show the error element.
\<close>

theorem defensive_sort_by_index_witness:
  "sort_key (indexKey flameHeap) (elements flameHeap (JRef 3)) = [JRef 2, JRef 1]
   \<and> map (entryIndex flameHeap) [JRef 2, JRef 1] = [Fin 1, Fin 2]
   \<and> shownTitles (navOn flameHeap (JRef 6) ''flame'')
       = [ascii ''01 THRESHOLD'', ascii ''02 SOMETHING'']
   \<and> (\<exists>rows. list_all2 (\<lambda>x row. renderRow (pageOf flameHeap (JRef 6)) DEFAULTS
                    (flameHeap @ [Arr [JRef 2, JRef 1]]) (ascii ''/STORYHUB/flame.html'') x
                  = Inr row) [JRef 2, JRef 1] rows
         \<and> navOn flameHeap (JRef 6) ''flame'' =
            Inr \<lparr>mountChildren = Some [Element ''div'' ''chapter-list'' [] rows],
                 heapAfter = flameHeap @ [Arr [JRef 2, JRef 1]], consoleErrors = []\<rparr>)
   \<and> (\<exists>err. navOn badOutputHeap (JRef 5) ''flame'' =
            Inr \<lparr>mountChildren = Some [loadFailed err],
                 heapAfter = badOutputHeap @ [Arr [JRef 1, JRef 2]],
                 consoleErrors = [ascii ''[navgen] Error: '' @ errToString err]\<rparr>)
   \<and> (\<exists>err. navOn_tree badOutputHeap (JRef 5) ''flame'' =
            Inr \<lparr>mountChildren = Some [loadFailed err],
                 heapAfter = badOutputHeap @ [Arr [JRef 1, JRef 2]],
                 consoleErrors = [ascii ''[navgen] Error: '' @ errToString err]\<rparr>)"
proof -
  let ?e = "pageOf flameHeap (JRef 6)"
  let ?cp = "ascii ''/STORYHUB/flame.html''"
  have p: "pickArcEntries flameHeap (JRef 6) (ascii ''flame'') = Inr (JRef 3)"
    by code_simp
  have els: "elements flameHeap (JRef 3) = [JRef 1, JRef 2]"
    by code_simp
  have i1: "field flameHeap (JRef 1) (ascii ''index'') = JNum (Fin 2)"
    and i2: "field flameHeap (JRef 2) (ascii ''index'') = JNum (Fin 1)"
    by code_simp+
  have ne: "elements flameHeap (JRef 3) \<noteq> []" by (simp add: els)
  have num: "\<forall>x \<in> set (elements flameHeap (JRef 3)).
      \<exists>n. field flameHeap x (ascii ''index'') = JNum n"
    using i1 i2 by (simp add: els)
  have cp: "getCurrentPathnameNormalized ?e = Inr ?cp"
    by code_simp
  have f: "fetchManifest ?e (manifestPath DEFAULTS) = Inr (flameHeap, JRef 6)"
    by code_simp
  have srt: "sort_key (indexKey flameHeap) (elements flameHeap (JRef 3)) = [JRef 2, JRef 1]"
    by code_simp
  have idx: "map (entryIndex flameHeap) [JRef 2, JRef 1] = [Fin 1, Fin 2]"
    by code_simp
  have shown: "shownTitles (navOn flameHeap (JRef 6) ''flame'')
      = [ascii ''01 THRESHOLD'', ascii ''02 SOMETHING'']"
    by code_simp
  have "case mapE (renderRow ?e DEFAULTS (flameHeap @ [Arr [JRef 2, JRef 1]]) ?cp)
      [JRef 2, JRef 1] of Inl err \<Rightarrow> False | Inr rows \<Rightarrow> True"
    by code_simp
  then obtain rows where rows:
    "mapE (renderRow ?e DEFAULTS (flameHeap @ [Arr [JRef 2, JRef 1]]) ?cp) [JRef 2, JRef 1]
       = Inr rows"
    by (auto split: sum.splits)
  then have la: "list_all2 (\<lambda>x row. renderRow ?e DEFAULTS
        (flameHeap @ [Arr [JRef 2, JRef 1]]) ?cp x = Inr row) [JRef 2, JRef 1] rows"
    by (simp only: mapE_Inr_iff)
  note t = defensive_sort_by_index [OF p ne num cp, where opts = DEFAULTS
      and mountId = "ascii ''chapterList''" and mt = mount0, unfolded srt]
  from t f la have good: "navOn flameHeap (JRef 6) ''flame'' =
      Inr \<lparr>mountChildren = Some [Element ''div'' ''chapter-list'' [] rows],
           heapAfter = flameHeap @ [Arr [JRef 2, JRef 1]], consoleErrors = []\<rparr>"
    unfolding navOn_def by blast
  let ?b = "pageOf badOutputHeap (JRef 5)"
  have bp: "pickArcEntries badOutputHeap (JRef 5) (ascii ''flame'') = Inr (JRef 3)"
    by code_simp
  have bels: "elements badOutputHeap (JRef 3) = [JRef 2, JRef 1]"
    by code_simp
  have b1: "field badOutputHeap (JRef 1) (ascii ''index'') = JNum (Fin 1)"
    and b2: "field badOutputHeap (JRef 2) (ascii ''index'') = JNum (Fin 2)"
    by code_simp+
  have bne: "elements badOutputHeap (JRef 3) \<noteq> []" by (simp add: bels)
  have bnum: "\<forall>x \<in> set (elements badOutputHeap (JRef 3)).
      \<exists>n. field badOutputHeap x (ascii ''index'') = JNum n"
    using b1 b2 by (simp add: bels)
  have bcp: "getCurrentPathnameNormalized ?b = Inr ?cp"
    by code_simp
  have bf: "fetchManifest ?b (manifestPath DEFAULTS) = Inr (badOutputHeap, JRef 5)"
    by code_simp
  have bft: "fetchManifest_tree ?b (manifestPath DEFAULTS) = Inr (badOutputHeap, JRef 5)"
    by code_simp
  have bsrt: "sort_key (indexKey badOutputHeap) (elements badOutputHeap (JRef 3))
      = [JRef 1, JRef 2]"
    by code_simp
  have bad: "renderRow ?b DEFAULTS (badOutputHeap @ [Arr [JRef 1, JRef 2]]) ?cp (JRef 2)
      = Inl cannotConvert"
    by code_simp
  have badt: "makeRow ?b DEFAULTS (badOutputHeap @ [Arr [JRef 1, JRef 2]]) ?cp (JRef 2)
      = Inl cannotConvert"
    by code_simp
  have fl: "ascii ''flame'' \<noteq> ascii ''lore''" "ascii ''flame'' \<noteq> ascii ''characters''"
    by simp_all
  note u = defensive_sort_by_index [OF bp bne bnum bcp, where opts = DEFAULTS
      and mountId = "ascii ''chapterList''" and mt = mount0, unfolded bsrt]
  from u bf bad have e1: "\<exists>err. navOn badOutputHeap (JRef 5) ''flame'' =
      Inr \<lparr>mountChildren = Some [loadFailed err],
           heapAfter = badOutputHeap @ [Arr [JRef 1, JRef 2]],
           consoleErrors = [ascii ''[navgen] Error: '' @ errToString err]\<rparr>"
    unfolding navOn_def by (metis list.set_intros(1,2))
  from u bft badt fl have e2: "\<exists>err. navOn_tree badOutputHeap (JRef 5) ''flame'' =
      Inr \<lparr>mountChildren = Some [loadFailed err],
           heapAfter = badOutputHeap @ [Arr [JRef 1, JRef 2]],
           consoleErrors = [ascii ''[navgen] Error: '' @ errToString err]\<rparr>"
    unfolding navOn_tree_def by (metis list.set_intros(1,2))
  from srt idx shown la good e1 e2 show ?thesis by blast
qed


section \<open>The order of entries without an index\<close>

lemma gtZero_numOfInt [simp]: "gtZero (numOfInt i) \<longleftrightarrow> 0 < i"
  by (simp add: gtZero_def numOfInt_def)

lemma compare_title:
  assumes "a \<noteq> JNull" "a \<noteq> JUndefined" "b \<noteq> JNull" "b \<noteq> JUndefined"
    and "numberOrNull (field h a (ascii ''index'')) = None
       \<or> numberOrNull (field h b (ascii ''index'')) = None"
  shows "defensiveCompare e h a b =
     bindE (sortTitle e h a) (\<lambda>ta. bindE (sortTitle e h b) (\<lambda>tb.
       Inr (numOfInt (localeCompare e ta tb))))"
  using assms by (auto simp: defensiveCompare_def getProp_field split: option.splits)

lemma mapE_Inl_elem: "mapE f xs = Inl err \<Longrightarrow> \<exists>x \<in> set xs. f x = Inl err"
proof (induction xs)
  case Nil
  then show ?case by simp
next
  case (Cons x xs)
  show ?case
  proof (cases "f x")
    case (Inl e)
    with Cons.prems show ?thesis by simp
  next
    case fx: (Inr y)
    show ?thesis
    proof (cases "mapE f xs")
      case (Inl e)
      with fx Cons show ?thesis by simp
    next
      case (Inr zs)
      with fx Cons.prems show ?thesis by simp
    qed
  qed
qed

lemma toStr_prim: "(\<forall>a. v \<noteq> JRef a) \<Longrightarrow> toStr e h v = Inr (primToStr e v)"
  by (cases v) (simp_all add: toStr.simps)

lemma toStr_ref_error: "toStr e h (JRef a) = Inl err \<Longrightarrow> err = cannotConvert"
proof (induction a arbitrary: err rule: less_induct)
  case (less a)
  show ?case
  proof (cases "cellAt h a")
    case None
    with less.prems show ?thesis by (simp add: toStr.simps [of e h "JRef a"])
  next
    case (Some c)
    show ?thesis
    proof (cases c)
      case (Obj ps)
      with Some less.prems show ?thesis
        by (simp add: toStr.simps [of e h "JRef a"] split: if_splits)
    next
      case (Arr xs)
      let ?f = "\<lambda>x. case x of
            JUndefined \<Rightarrow> Inr []
          | JNull \<Rightarrow> Inr []
          | JRef b \<Rightarrow> (if b < a then toStr e h (JRef b) else Inr [])
          | _ \<Rightarrow> Inr (primToStr e x)"
      from Arr Some less.prems have "mapE ?f xs = Inl err"
        by (cases "mapE ?f xs") (simp_all add: toStr.simps [of e h "JRef a"])
      then have "\<exists>x \<in> set xs. ?f x = Inl err" by (rule mapE_Inl_elem)
      then obtain x where x: "?f x = Inl err" by blast
      then obtain b where "x = JRef b" "b < a" "toStr e h (JRef b) = Inl err"
        by (cases x) (auto split: if_splits)
      then show ?thesis using less.IH by blast
    qed
  qed
qed

lemma toStr_error: "toStr e h v = Inl err \<Longrightarrow> err = cannotConvert"
  by (cases v) (auto simp: toStr_prim dest: toStr_ref_error)

lemma sortTitle_error: "sortTitle e h x = Inl err \<Longrightarrow> err = cannotConvert"
  by (auto simp: sortTitle_def bindE_def split: sum.splits dest: toStr_error)

lemma insertE_sorted_wrt:
  assumes cmp: "\<forall>a \<in> S. \<forall>b \<in> S. cmp a b = Inr (numOfInt (c a b))"
    and total: "\<forall>a \<in> S. \<forall>b \<in> S. c a b \<le> 0 \<or> c b a \<le> 0"
    and trans: "\<forall>a \<in> S. \<forall>b \<in> S. \<forall>d \<in> S. c a b \<le> 0 \<and> c b d \<le> 0 \<longrightarrow> c a d \<le> 0"
    and x: "x \<in> S" and ys: "set ys \<subseteq> S"
    and srt: "sorted_wrt (\<lambda>a b. c a b \<le> (0::int)) ys"
  shows "\<exists>r. insertE cmp x ys = Inr r \<and> mset r = add_mset x (mset ys)
            \<and> sorted_wrt (\<lambda>a b. c a b \<le> 0) r"
  using ys srt
proof (induction ys)
  case Nil
  then show ?case by simp
next
  case (Cons y ys)
  then have y: "y \<in> S" and ysS: "set ys \<subseteq> S" by auto
  from Cons.prems have tail: "sorted_wrt (\<lambda>a b. c a b \<le> 0) ys"
    and head: "\<forall>z \<in> set ys. c y z \<le> 0" by auto
  have cxy: "cmp x y = Inr (numOfInt (c x y))" using cmp x y by blast
  show ?case
  proof (cases "c x y \<le> 0")
    case True
    have "\<forall>z \<in> set ys. c x z \<le> 0"
    proof
      fix z assume z: "z \<in> set ys"
      then have "c y z \<le> 0" using head by blast
      moreover have "z \<in> S" using z ysS by blast
      ultimately show "c x z \<le> 0" using True trans x y by blast
    qed
    with True cxy Cons.prems show ?thesis by auto
  next
    case False
    from Cons.IH [OF ysS tail] obtain r where
      r: "insertE cmp x ys = Inr r" "mset r = add_mset x (mset ys)"
        "sorted_wrt (\<lambda>a b. c a b \<le> 0) r" by blast
    from r(2) have setr: "set r = insert x (set ys)"
      by (metis set_mset_add_mset_insert set_mset_mset)
    have "c y x \<le> 0" using False total x y by blast
    with head setr have "\<forall>z \<in> set r. c y z \<le> 0" by auto
    with r False cxy show ?thesis by auto
  qed
qed

lemma sortE_sorted_wrt:
  assumes cmp: "\<forall>a \<in> set xs. \<forall>b \<in> set xs. cmp a b = Inr (numOfInt (c a b))"
    and total: "\<forall>a \<in> set xs. \<forall>b \<in> set xs. c a b \<le> 0 \<or> c b a \<le> 0"
    and trans: "\<forall>a \<in> set xs. \<forall>b \<in> set xs. \<forall>d \<in> set xs.
                  c a b \<le> 0 \<and> c b d \<le> 0 \<longrightarrow> c a d \<le> 0"
  shows "\<exists>ys. sortE cmp xs = Inr ys \<and> mset ys = mset xs
             \<and> sorted_wrt (\<lambda>a b. c a b \<le> (0::int)) ys"
proof -
  have "\<And>zs. set zs \<subseteq> set xs \<Longrightarrow>
      \<exists>ys. sortE cmp zs = Inr ys \<and> mset ys = mset zs \<and> sorted_wrt (\<lambda>a b. c a b \<le> 0) ys"
  proof -
    fix zs show "set zs \<subseteq> set xs \<Longrightarrow>
      \<exists>ys. sortE cmp zs = Inr ys \<and> mset ys = mset zs \<and> sorted_wrt (\<lambda>a b. c a b \<le> 0) ys"
    proof (induction zs)
      case Nil
      then show ?case by simp
    next
      case (Cons z zs)
      then obtain ys where ys: "sortE cmp zs = Inr ys" "mset ys = mset zs"
        "sorted_wrt (\<lambda>a b. c a b \<le> 0) ys" by auto
      from ys(2) have "set ys = set zs" by (metis set_mset_mset)
      with Cons.prems have sub: "set ys \<subseteq> set xs" and z: "z \<in> set xs" by auto
      from insertE_sorted_wrt [OF cmp total trans z sub ys(3)] obtain r where
        "insertE cmp z ys = Inr r" "mset r = add_mset z (mset ys)"
        "sorted_wrt (\<lambda>a b. c a b \<le> 0) r" by blast
      with ys show ?case by auto
    qed
  qed
  then show ?thesis by blast
qed

lemma insertE_cong_set:
  assumes "\<forall>a \<in> set (x # ys). \<forall>b \<in> set (x # ys). f a b = g a b"
  shows "insertE f x ys = insertE g x ys"
  using assms
proof (induction ys)
  case Nil
  then show ?case by simp
next
  case (Cons y ys)
  then have ih: "insertE f x ys = insertE g x ys" by simp
  have fg: "f x y = g x y" using Cons.prems by simp
  show ?case by (simp only: insertE.simps fg ih)
qed

lemma sortE_cong_set:
  assumes "\<forall>a \<in> set xs. \<forall>b \<in> set xs. f a b = g a b"
  shows "sortE f xs = sortE g xs"
  using assms
proof (induction xs)
  case Nil
  then show ?case by simp
next
  case (Cons x xs)
  then have ih: "sortE f xs = sortE g xs" by simp
  show ?case
  proof (cases "sortE g xs")
    case (Inl e)
    with ih show ?thesis by simp
  next
    case (Inr s)
    then have "set s = set xs" by (rule sortE_set)
    with Cons.prems have "\<forall>a \<in> set (x # s). \<forall>b \<in> set (x # s). f a b = g a b" by simp
    then have "insertE f x s = insertE g x s" by (rule insertE_cong_set)
    with ih Inr show ?thesis by simp
  qed
qed

text \<open>
  When every call of the comparator that involves a bad element throws the error
  \<open>E\<close>, and no other call throws, the sort of two or more elements of which one is
  bad throws \<open>E\<close>.
\<close>

lemma insertE_error:
  assumes "\<forall>a \<in> set (x # ys). \<forall>b \<in> set (x # ys). \<forall>err. cmp a b = Inl err \<longrightarrow> err = E"
    and "insertE cmp x ys = Inl err"
  shows "err = E"
  using assms
proof (induction ys)
  case Nil
  then show ?case by simp
next
  case (Cons y ys)
  show ?case
  proof (cases "cmp x y")
    case (Inl e)
    with Cons.prems show ?thesis by auto
  next
    case (Inr c)
    with Cons.prems have "insertE cmp x ys = Inl err"
      by (auto split: if_splits sum.splits)
    moreover have "\<forall>a \<in> set (x # ys). \<forall>b \<in> set (x # ys). \<forall>err. cmp a b = Inl err \<longrightarrow> err = E"
      using Cons.prems(1) by simp
    ultimately show ?thesis using Cons.IH by blast
  qed
qed

lemma sortE_error:
  assumes "\<forall>a \<in> set xs. \<forall>b \<in> set xs. \<forall>err. cmp a b = Inl err \<longrightarrow> err = E"
    and "sortE cmp xs = Inl err"
  shows "err = E"
  using assms
proof (induction xs arbitrary: err)
  case Nil
  then show ?case by simp
next
  case (Cons x xs)
  have sub: "\<forall>a \<in> set xs. \<forall>b \<in> set xs. \<forall>err. cmp a b = Inl err \<longrightarrow> err = E"
    using Cons.prems(1) by simp
  show ?case
  proof (cases "sortE cmp xs")
    case (Inl e)
    with Cons.prems(2) have "e = err" by simp
    with Inl Cons.IH [OF sub] show ?thesis by blast
  next
    case (Inr s)
    then have s: "set s = set xs" by (rule sortE_set)
    from Inr Cons.prems(2) have i: "insertE cmp x s = Inl err" by simp
    have "\<forall>a \<in> set (x # s). \<forall>b \<in> set (x # s). \<forall>err. cmp a b = Inl err \<longrightarrow> err = E"
      using Cons.prems(1) s by simp
    then show ?thesis using i by (rule insertE_error)
  qed
qed

lemma sortE_throws:
  assumes bad: "\<forall>a \<in> set xs. \<forall>b \<in> set xs. bad a \<or> bad b \<longrightarrow> cmp a b = Inl E"
    and good: "\<forall>a \<in> set xs. \<forall>b \<in> set xs. \<forall>err. cmp a b = Inl err \<longrightarrow> err = E"
    and two: "2 \<le> length xs" and some: "\<exists>x \<in> set xs. bad x"
  shows "sortE cmp xs = Inl E"
  using assms
proof (induction xs)
  case Nil
  then show ?case by simp
next
  case (Cons x xs)
  have subbad: "\<forall>a \<in> set xs. \<forall>b \<in> set xs. bad a \<or> bad b \<longrightarrow> cmp a b = Inl E"
    using Cons.prems(1) by simp
  have subgood: "\<forall>a \<in> set xs. \<forall>b \<in> set xs. \<forall>err. cmp a b = Inl err \<longrightarrow> err = E"
    using Cons.prems(2) by simp
  show ?case
  proof (cases "sortE cmp xs")
    case (Inl e)
    then have "e = E" using sortE_error [OF subgood] by blast
    with Inl show ?thesis by simp
  next
    case (Inr s)
    then have s: "set s = set xs" by (rule sortE_set)
    from Cons.prems(3) have "xs \<noteq> []" by auto
    with s obtain y ys where sy: "s = y # ys" by (cases s) auto
    have yin: "y \<in> set xs" using s sy by auto
    have "bad x \<or> bad y"
    proof (cases "2 \<le> length xs \<and> (\<exists>z \<in> set xs. bad z)")
      case True
      then have "sortE cmp xs = Inl E" using Cons.IH [OF subbad subgood] by blast
      with Inr show ?thesis by simp
    next
      case False
      show ?thesis
      proof (cases "\<exists>z \<in> set xs. bad z")
        case no: False
        with Cons.prems(4) show ?thesis by auto
      next
        case yes: True
        with False have "length xs < 2" by simp
        with \<open>xs \<noteq> []\<close> obtain z where "xs = [z]"
          by (cases xs; cases "tl xs") auto
        with yes yin show ?thesis by simp
      qed
    qed
    then have "cmp x y = Inl E" using Cons.prems(1) yin by auto
    with Inr sy show ?thesis by simp
  qed
qed

text \<open>
  C5, amended. For entries without a numeric \<^verbatim>\<open>index\<close> (none of them \<^verbatim>\<open>null\<close>) the
  defensive sort of either file orders by title alone, the sort key of an entry being
  \<^verbatim>\<open>String(title || title_text || id || "")\<close> in the engine's lower case. When
  \<^verbatim>\<open>String\<close> converts the title of every entry and \<^verbatim>\<open>localeCompare\<close> is total and
  transitive on the keys, the result is a permutation of the array in which every entry
  comes before the entries of greater key, whatever their categories; and it is the same
  for every heap in which the entries have the same keys, so the \<^verbatim>\<open>category\<close> of an
  entry has no part in it. When the array has two or more entries and \<^verbatim>\<open>String\<close>
  throws on the title of one (an object with a property \<^verbatim>\<open>toString\<close>), the sort
  throws that \<^verbatim>\<open>TypeError\<close>.
\<close>

theorem defensive_sort_by_title:
  fixes e :: env and h :: heap and xs :: "jsval list"
  assumes noindex: "\<forall>x \<in> set xs. x \<noteq> JNull \<and> x \<noteq> JUndefined
                      \<and> numberOrNull (field h x (ascii ''index'')) = None"
  shows "(\<forall>key.
            (\<forall>x \<in> set xs. sortTitle e h x = Inr (key x))
          \<and> (\<forall>a \<in> set xs. \<forall>b \<in> set xs.
                localeCompare e (key a) (key b) \<le> 0 \<or> localeCompare e (key b) (key a) \<le> 0)
          \<and> (\<forall>a \<in> set xs. \<forall>b \<in> set xs. \<forall>d \<in> set xs.
                localeCompare e (key a) (key b) \<le> 0 \<and> localeCompare e (key b) (key d) \<le> 0
                \<longrightarrow> localeCompare e (key a) (key d) \<le> 0)
          \<longrightarrow> (\<exists>ys. sortE (defensiveCompare e h) xs = Inr ys
                  \<and> sortE (defensiveCompare_tree e h) xs = Inr ys
                  \<and> mset ys = mset xs
                  \<and> sorted_wrt (\<lambda>a b. localeCompare e (key a) (key b) \<le> 0) ys))
       \<and> (\<forall>h'. (\<forall>x \<in> set xs. numberOrNull (field h' x (ascii ''index'')) = None
                              \<and> sortTitle e h' x = sortTitle e h x)
               \<longrightarrow> sortE (defensiveCompare e h') xs = sortE (defensiveCompare e h) xs)
       \<and> (2 \<le> length xs \<and> (\<exists>x \<in> set xs. \<exists>err. sortTitle e h x = Inl err)
            \<longrightarrow> sortE (defensiveCompare e h) xs = Inl cannotConvert
              \<and> sortE (defensiveCompare_tree e h) xs = Inl cannotConvert)"
proof (intro conjI allI impI)
  have shape: "\<forall>a \<in> set xs. \<forall>b \<in> set xs. defensiveCompare e h a b =
      bindE (sortTitle e h a) (\<lambda>ta. bindE (sortTitle e h b) (\<lambda>tb.
        Inr (numOfInt (localeCompare e ta tb))))"
    using noindex by (simp add: compare_title)
  {
    fix key
    assume k: "(\<forall>x \<in> set xs. sortTitle e h x = Inr (key x))
          \<and> (\<forall>a \<in> set xs. \<forall>b \<in> set xs.
                localeCompare e (key a) (key b) \<le> 0 \<or> localeCompare e (key b) (key a) \<le> 0)
          \<and> (\<forall>a \<in> set xs. \<forall>b \<in> set xs. \<forall>d \<in> set xs.
                localeCompare e (key a) (key b) \<le> 0 \<and> localeCompare e (key b) (key d) \<le> 0
                \<longrightarrow> localeCompare e (key a) (key d) \<le> 0)"
    then have cmp: "\<forall>a \<in> set xs. \<forall>b \<in> set xs.
        defensiveCompare e h a b = Inr (numOfInt (localeCompare e (key a) (key b)))"
      using shape by simp
    from k have total: "\<forall>a \<in> set xs. \<forall>b \<in> set xs.
        localeCompare e (key a) (key b) \<le> 0 \<or> localeCompare e (key b) (key a) \<le> 0"
      by blast
    from k have trans: "\<forall>a \<in> set xs. \<forall>b \<in> set xs. \<forall>d \<in> set xs.
        localeCompare e (key a) (key b) \<le> 0 \<and> localeCompare e (key b) (key d) \<le> 0
        \<longrightarrow> localeCompare e (key a) (key d) \<le> 0"
      by blast
    from sortE_sorted_wrt [OF cmp total trans]
    show "\<exists>ys. sortE (defensiveCompare e h) xs = Inr ys
                \<and> sortE (defensiveCompare_tree e h) xs = Inr ys
                \<and> mset ys = mset xs
                \<and> sorted_wrt (\<lambda>a b. localeCompare e (key a) (key b) \<le> 0) ys"
      by (simp add: defensiveCompare_tree_eq)
  }
  {
    fix h'
    assume same: "\<forall>x \<in> set xs. numberOrNull (field h' x (ascii ''index'')) = None
        \<and> sortTitle e h' x = sortTitle e h x"
    have "\<forall>a \<in> set xs. \<forall>b \<in> set xs. defensiveCompare e h' a b = defensiveCompare e h a b"
      using noindex same by (simp add: compare_title)
    then show "sortE (defensiveCompare e h') xs = sortE (defensiveCompare e h) xs"
      by (rule sortE_cong_set)
  }
  {
    assume t: "2 \<le> length xs \<and> (\<exists>x \<in> set xs. \<exists>err. sortTitle e h x = Inl err)"
    let ?bad = "\<lambda>x. \<exists>err. sortTitle e h x = Inl err"
    have bad: "\<forall>a \<in> set xs. \<forall>b \<in> set xs.
        ?bad a \<or> ?bad b \<longrightarrow> defensiveCompare e h a b = Inl cannotConvert"
    proof (intro ballI impI)
      fix a b assume ab: "a \<in> set xs" "b \<in> set xs" and d: "?bad a \<or> ?bad b"
      from ab shape have s: "defensiveCompare e h a b =
          bindE (sortTitle e h a) (\<lambda>ta. bindE (sortTitle e h b) (\<lambda>tb.
            Inr (numOfInt (localeCompare e ta tb))))"
        by blast
      show "defensiveCompare e h a b = Inl cannotConvert"
      proof (cases "sortTitle e h a")
        case (Inl err)
        then show ?thesis using s by (auto simp: bindE_def dest: sortTitle_error)
      next
        case (Inr ta)
        with d obtain err where "sortTitle e h b = Inl err" by auto
        then show ?thesis using s Inr by (auto simp: bindE_def dest: sortTitle_error)
      qed
    qed
    have good: "\<forall>a \<in> set xs. \<forall>b \<in> set xs. \<forall>err.
        defensiveCompare e h a b = Inl err \<longrightarrow> err = cannotConvert"
    proof (intro ballI allI impI)
      fix a b err assume ab: "a \<in> set xs" "b \<in> set xs"
        and d: "defensiveCompare e h a b = Inl err"
      from ab shape have s: "defensiveCompare e h a b =
          bindE (sortTitle e h a) (\<lambda>ta. bindE (sortTitle e h b) (\<lambda>tb.
            Inr (numOfInt (localeCompare e ta tb))))"
        by blast
      from d s show "err = cannotConvert"
        by (auto simp: bindE_def split: sum.splits dest: sortTitle_error)
    qed
    from t have two: "2 \<le> length xs" and some: "\<exists>x \<in> set xs. ?bad x" by blast+
    show "sortE (defensiveCompare e h) xs = Inl cannotConvert"
      using bad good two some by (rule sortE_throws)
    then show "sortE (defensiveCompare_tree e h) xs = Inl cannotConvert"
      by (simp add: defensiveCompare_tree_eq)
  }
qed

text \<open>
  C5 as stated fails: the builder lists Lucy Moore of category fiends before Blink of
  category marauders, and the defensive sort puts Blink first, the entry of the
  greater category, because its title is smaller.
\<close>

theorem category_not_a_sort_key:
  "sortE (defensiveCompare (pageOf charactersHeap (JRef 4)) charactersHeap)
       (elements charactersHeap (JRef 2))
     = Inr [JRef 1, JRef 0]
   \<and> field charactersHeap (JRef 1) (ascii ''category'') = strv ''marauders''
   \<and> field charactersHeap (JRef 0) (ascii ''category'') = strv ''fiends''
   \<and> lexCompare (map lowerAscii (ascii ''fiends'')) (map lowerAscii (ascii ''marauders'')) < 0
   \<and> numberOrNull (field charactersHeap (JRef 0) (ascii ''index'')) = None
   \<and> numberOrNull (field charactersHeap (JRef 1) (ascii ''index'')) = None
   \<and> shownTitles (navOn charactersHeap (JRef 4) ''characters'')
       = [ascii ''Blink'', ascii ''Lucy Moore'']"
  by code_simp

text \<open>
  On the two characters: sorted by the keys blink, lucy moore. And when the title of
  one of two entries is an object with a property \<^verbatim>\<open>toString\<close>, the sort throws.
\<close>

theorem defensive_sort_by_title_witness:
  "sortE (defensiveCompare (pageOf charactersHeap (JRef 4)) charactersHeap) [JRef 0, JRef 1]
     = Inr [JRef 1, JRef 0]
   \<and> sortE (defensiveCompare_tree (pageOf charactersHeap (JRef 4)) charactersHeap)
       [JRef 0, JRef 1] = Inr [JRef 1, JRef 0]
   \<and> sortTitle (pageOf charactersHeap (JRef 4)) charactersHeap (JRef 1) = Inr (ascii ''blink'')
   \<and> sortTitle (pageOf charactersHeap (JRef 4)) charactersHeap (JRef 0)
       = Inr (ascii ''lucy moore'')
   \<and> sortE (defensiveCompare (pageOf charactersHeap (JRef 4)) badTitleHeap) [JRef 1, JRef 2]
       = Inl cannotConvert"
proof -
  let ?h = charactersHeap
  let ?e = "pageOf charactersHeap (JRef 4)"
  let ?key = "\<lambda>x. if x = JRef 0 then ascii ''lucy moore'' else ascii ''blink''"
  have n: "numberOrNull (field ?h (JRef 0) (ascii ''index'')) = None"
      "numberOrNull (field ?h (JRef 1) (ascii ''index'')) = None"
    by code_simp+
  have t: "sortTitle ?e ?h (JRef 0) = Inr (ascii ''lucy moore'')"
      "sortTitle ?e ?h (JRef 1) = Inr (ascii ''blink'')"
    by code_simp+
  have lc: "localeCompare ?e = lexCompare"
    by (simp add: pageOf_def sampleEnv_def)
  have c: "lexCompare (ascii ''lucy moore'') (ascii ''lucy moore'') = 0"
      "lexCompare (ascii ''blink'') (ascii ''blink'') = 0"
      "lexCompare (ascii ''blink'') (ascii ''lucy moore'') = - 1"
      "lexCompare (ascii ''lucy moore'') (ascii ''blink'') = 1"
    by code_simp+
  have noindex: "\<forall>x \<in> set [JRef 0, JRef 1]. x \<noteq> JNull \<and> x \<noteq> JUndefined
      \<and> numberOrNull (field ?h x (ascii ''index'')) = None"
    using n by simp
  have conv: "\<forall>x \<in> set [JRef 0, JRef 1]. sortTitle ?e ?h x = Inr (?key x)"
    using t by simp
  have total: "\<forall>a \<in> set [JRef 0, JRef 1]. \<forall>b \<in> set [JRef 0, JRef 1].
      localeCompare ?e (?key a) (?key b) \<le> 0 \<or> localeCompare ?e (?key b) (?key a) \<le> 0"
    using c by (simp add: lc)
  have trans: "\<forall>a \<in> set [JRef 0, JRef 1]. \<forall>b \<in> set [JRef 0, JRef 1].
      \<forall>d \<in> set [JRef 0, JRef 1].
      localeCompare ?e (?key a) (?key b) \<le> 0 \<and> localeCompare ?e (?key b) (?key d) \<le> 0
      \<longrightarrow> localeCompare ?e (?key a) (?key d) \<le> 0"
    using c by (simp add: lc)
  have ev: "sortE (defensiveCompare ?e ?h) [JRef 0, JRef 1] = Inr [JRef 1, JRef 0]"
    by code_simp
  note th = spec [OF conjunct1 [OF defensive_sort_by_title [OF noindex, where e = ?e]],
      where x = ?key]
  from th conv total trans obtain ys where
    ys: "sortE (defensiveCompare ?e ?h) [JRef 0, JRef 1] = Inr ys"
      "sortE (defensiveCompare_tree ?e ?h) [JRef 0, JRef 1] = Inr ys"
    by blast
  from ys(1) ev have y: "ys = [JRef 1, JRef 0]" by simp
  have bn: "numberOrNull (field badTitleHeap (JRef 1) (ascii ''index'')) = None"
      "numberOrNull (field badTitleHeap (JRef 2) (ascii ''index'')) = None"
    by code_simp+
  have bnoindex: "\<forall>x \<in> set [JRef 1, JRef 2]. x \<noteq> JNull \<and> x \<noteq> JUndefined
      \<and> numberOrNull (field badTitleHeap x (ascii ''index'')) = None"
    using bn by simp
  have bt: "sortTitle ?e badTitleHeap (JRef 2) = Inl cannotConvert"
    by code_simp
  have two: "2 \<le> length [JRef 1 :: jsval, JRef 2]" by simp
  note tb = conjunct2 [OF conjunct2 [OF defensive_sort_by_title [OF bnoindex, where e = ?e]]]
  from tb bt two have thr: "sortE (defensiveCompare ?e badTitleHeap) [JRef 1, JRef 2]
      = Inl cannotConvert"
    by (metis list.set_intros(1,2))
  from ys y t thr show ?thesis by simp
qed


section \<open>The manifest store: other arcs and determinism\<close>

lemma mergePass_frame:
  "a \<notin> owned p \<Longrightarrow> arcs (mergePass p built now r (Some m)) a = arcs m a"
  by (simp add: mergePass_def)

lemma mergePass_fields:
  "schema (mergePass p built now r (Some m)) = schema m"
  "root (mergePass p built now r (Some m)) = root m"
  "generated_at (mergePass p built now r ex) = now"
  by (simp_all add: mergePass_def Let_def)

text \<open>
  C6. A pass on an existing manifest leaves every arc it does not own as it was, and
  the schema and the root as well: a Flame/Order pass leaves \<^verbatim>\<open>arcs.characters\<close> and
  \<^verbatim>\<open>arcs.lore\<close>, a Characters pass changes \<^verbatim>\<open>arcs.characters\<close> only, a Lore pass
  \<^verbatim>\<open>arcs.lore\<close> only; the manifest after the pass is the one before with a new
  \<^verbatim>\<open>generated_at\<close> and new owned arcs.
\<close>

theorem pass_leaves_other_arcs:
  fixes m :: manifest and process :: "source_document \<Rightarrow> manifest_entry option"
    and p :: build_pass and docs :: "source_document list" and now rootName :: string
  defines "m' \<equiv> runPass process p docs now rootName (Some m)"
  shows "(\<forall>a. a \<notin> owned p \<longrightarrow> arcs m' a = arcs m a)
       \<and> schema m' = schema m \<and> root m' = root m
       \<and> m' = m\<lparr>generated_at := generated_at m', arcs := arcs m'\<rparr>
       \<and> (p = ChaptersPass \<longrightarrow> arcs m' Characters = arcs m Characters \<and> arcs m' Lore = arcs m Lore)
       \<and> (p = CharactersPass \<longrightarrow>
            arcs m' Flame = arcs m Flame \<and> arcs m' Order = arcs m Order \<and> arcs m' Lore = arcs m Lore)
       \<and> (p = LorePass \<longrightarrow>
            arcs m' Flame = arcs m Flame \<and> arcs m' Order = arcs m Order
            \<and> arcs m' Characters = arcs m Characters)"
  unfolding m'_def runPass_def
  by (auto simp: mergePass_def)

text \<open>
  On a manifest that lists the character Blink: a Flame/Order pass and a Lore pass leave
  him, a Characters pass replaces him and leaves the Flame arc empty.
\<close>

theorem pass_leaves_other_arcs_witness:
  "arcs (runPass sampleProcess ChaptersPass [docF02, docLucy, docF01] ''2026-11-02T10:00:00''
           ''STORYHUB'' (Some oldManifest)) Characters = [blinkEntry]
   \<and> arcs (runPass sampleProcess ChaptersPass [docF02, docLucy, docF01] ''2026-11-02T10:00:00''
           ''STORYHUB'' (Some oldManifest)) Lore = []
   \<and> map e_index (arcs (runPass sampleProcess ChaptersPass [docF02, docLucy, docF01]
           ''2026-11-02T10:00:00'' ''STORYHUB'' (Some oldManifest)) Flame) = [1, 2]
   \<and> arcs (runPass sampleProcess LorePass [docF02, docLucy, docF01] ''2026-11-02T10:00:00''
           ''STORYHUB'' (Some oldManifest)) Characters = [blinkEntry]
   \<and> map e_title (arcs (runPass sampleProcess CharactersPass [docF02, docLucy, docF01]
           ''2026-11-02T10:00:00'' ''STORYHUB'' (Some oldManifest)) Characters) = [''Lucy Moore'']
   \<and> arcs (runPass sampleProcess CharactersPass [docF02, docLucy, docF01]
           ''2026-11-02T10:00:00'' ''STORYHUB'' (Some oldManifest)) Flame = []"
proof -
  let ?docs = "[docF02, docLucy, docF01]"
  let ?now = "''2026-11-02T10:00:00''"
  have old: "arcs oldManifest Characters = [blinkEntry]" "arcs oldManifest Lore = []"
      "arcs oldManifest Flame = []"
    by (simp_all add: oldManifest_def)
  have ev: "map e_index (arcs (runPass sampleProcess ChaptersPass ?docs ?now ''STORYHUB''
        (Some oldManifest)) Flame) = [1, 2]"
      "map e_title (arcs (runPass sampleProcess CharactersPass ?docs ?now ''STORYHUB''
        (Some oldManifest)) Characters) = [''Lucy Moore'']"
    by code_simp+
  note c = pass_leaves_other_arcs [where process = sampleProcess and p = ChaptersPass
      and docs = ?docs and now = ?now and rootName = "''STORYHUB''" and m = oldManifest]
  note l = pass_leaves_other_arcs [where process = sampleProcess and p = LorePass
      and docs = ?docs and now = ?now and rootName = "''STORYHUB''" and m = oldManifest]
  note k = pass_leaves_other_arcs [where process = sampleProcess and p = CharactersPass
      and docs = ?docs and now = ?now and rootName = "''STORYHUB''" and m = oldManifest]
  from c l k old ev show ?thesis by simp
qed











end
